theory Spec2Isabelle
  imports Main
begin

section \<open>Strings and errors\<close>

text \<open>
  A Python \<open>str\<close> is a sequence of Unicode code points, so it is modelled as a list of
  natural numbers (\<open>len\<close> is \<open>length\<close>, one element per code point). \<open>lit\<close> embeds an
  ASCII literal of the source.
\<close>

type_synonym str = "nat list"

definition lit :: "string \<Rightarrow> str" where
  "lit s = map of_char s"

text \<open>
  The exceptions of the three modules. Both transformers raise \<open>ValueError\<close> with the message
  \<open>Unknown operation {operation}\<close> (here \<open>UnknownOperation\<close>) or
  \<open>Unknown criterion type {type} [for operation {operation}]\<close> (here
  \<open>UnknownCriterionType\<close>; only the request transformer names the operation).
  \<open>ValidationError\<close> is what constructing a model of \<open>types.py\<close> raises when a field
  validator or a field type rejects its input; \<open>AttributeError\<close> is Python's error for
  reading a field that an object does not have.
\<close>

datatype error =
    UnknownOperation str
  | UnknownCriterionType str "str option"
  | ValidationError
  | AttributeError
  | KeyError

section \<open>Field validation (types.py)\<close>

subsection \<open>str.isdigit\<close>

text \<open>
  \<open>v.isdigit()\<close> is true when \<open>v\<close> is not empty and every character has the Unicode
  property Numeric_Type=Digit or Numeric_Type=Decimal. The table lists these code points as
  inclusive ranges (Unicode 14.0.0, the database of CPython 3.11).
\<close>

definition isdigit_ranges :: "(nat \<times> nat) list" where
  "isdigit_ranges =
    [(48, 57), (178, 179), (185, 185), (1632, 1641), (1776, 1785), (1984, 1993),
     (2406, 2415), (2534, 2543), (2662, 2671), (2790, 2799), (2918, 2927), (3046, 3055),
     (3174, 3183), (3302, 3311), (3430, 3439), (3558, 3567), (3664, 3673), (3792, 3801),
     (3872, 3881), (4160, 4169), (4240, 4249), (4969, 4977), (6112, 6121), (6160, 6169),
     (6470, 6479), (6608, 6618), (6784, 6793), (6800, 6809), (6992, 7001), (7088, 7097),
     (7232, 7241), (7248, 7257), (8304, 8304), (8308, 8313), (8320, 8329), (9312, 9320),
     (9332, 9340), (9352, 9360), (9450, 9450), (9461, 9469), (9471, 9471), (10102, 10110),
     (10112, 10120), (10122, 10130), (42528, 42537), (43216, 43225), (43264, 43273),
     (43472, 43481), (43504, 43513), (43600, 43609), (44016, 44025), (65296, 65305),
     (66720, 66729), (68160, 68163), (68912, 68921), (69216, 69224), (69714, 69722),
     (69734, 69743), (69872, 69881), (69942, 69951), (70096, 70105), (70384, 70393),
     (70736, 70745), (70864, 70873), (71248, 71257), (71360, 71369), (71472, 71481),
     (71904, 71913), (72016, 72025), (72784, 72793), (73040, 73049), (73120, 73129),
     (92768, 92777), (92864, 92873), (93008, 93017), (120782, 120831), (123200, 123209),
     (123632, 123641), (125264, 125273), (127232, 127242), (130032, 130041)]"

definition isdigit_char :: "nat \<Rightarrow> bool" where
  "isdigit_char c = list_ex (\<lambda>(lo, hi). lo \<le> c \<and> c \<le> hi) isdigit_ranges"

definition isdigit :: "str \<Rightarrow> bool" where
  "isdigit v \<longleftrightarrow> v \<noteq> [] \<and> list_all isdigit_char v"

text \<open>The ASCII decimal digits \<open>0\<close> to \<open>9\<close>, for comparison.\<close>

definition ascii_digit :: "nat \<Rightarrow> bool" where
  "ascii_digit c \<longleftrightarrow> 48 \<le> c \<and> c \<le> 57"

subsection \<open>The address patterns\<close>

text \<open>
  \<open>re.match\<close> anchors at the start of the string. Without \<open>re.MULTILINE\<close>, the anchor
  \<open>$\<close> matches at the end of the string and also just before a newline that ends the
  string: \<open>re_end rest\<close> says that \<open>$\<close> matches when \<open>rest\<close> is what remains of
  the input.
\<close>

definition re_end :: "str \<Rightarrow> bool" where
  "re_end rest \<longleftrightarrow> rest = [] \<or> rest = [10]"

text \<open>The class \<open>[0-9a-fA-F]\<close>.\<close>

definition hex_char :: "nat \<Rightarrow> bool" where
  "hex_char c \<longleftrightarrow> (48 \<le> c \<and> c \<le> 57) \<or> (97 \<le> c \<and> c \<le> 102) \<or> (65 \<le> c \<and> c \<le> 70)"

text \<open>\<open>re.match(r"^0x[0-9a-fA-F]{40}$", addr)\<close>\<close>

definition match_evm_address :: "str \<Rightarrow> bool" where
  "match_evm_address addr \<longleftrightarrow>
     take 2 addr = lit ''0x'' \<and>
     length (take 40 (drop 2 addr)) = 40 \<and>
     list_all hex_char (take 40 (drop 2 addr)) \<and>
     re_end (drop 42 addr)"

text \<open>The class \<open>[1-9A-HJ-NP-Za-km-z]\<close>.\<close>

definition base58_char :: "nat \<Rightarrow> bool" where
  "base58_char c \<longleftrightarrow>
     (49 \<le> c \<and> c \<le> 57) \<or> (65 \<le> c \<and> c \<le> 72) \<or> (74 \<le> c \<and> c \<le> 78) \<or>
     (80 \<le> c \<and> c \<le> 90) \<or> (97 \<le> c \<and> c \<le> 107) \<or> (109 \<le> c \<and> c \<le> 122)"

text \<open>\<open>re.compile(r"^[1-9A-HJ-NP-Za-km-z]{32,44}$").match(address)\<close>: some number
  \<open>n\<close> of repetitions between 32 and 44 is followed by \<open>$\<close>.\<close>

definition match_sol_address :: "str \<Rightarrow> bool" where
  "match_sol_address address \<longleftrightarrow>
     list_ex (\<lambda>n. n \<le> length address \<and> list_all base58_char (take n address) \<and>
                  re_end (drop n address)) [32 ..< 45]"

subsection \<open>The validators\<close>

text \<open>\<open>validate_eth_value\<close> and \<open>validate_value\<close>: \<open>if not v.isdigit(): raise\<close>.\<close>

definition validate_eth_value :: "str \<Rightarrow> error + str" where
  "validate_eth_value v = (if \<not> isdigit v then Inl ValidationError else Inr v)"

definition validate_value :: "str \<Rightarrow> error + str" where
  "validate_value v = (if \<not> isdigit v then Inl ValidationError else Inr v)"

text \<open>\<open>validate_addresses_length\<close>: \<open>if len(v) > 300: raise\<close>.\<close>

definition validate_addresses_length :: "str list \<Rightarrow> error + str list" where
  "validate_addresses_length v = (if length v > 300 then Inl ValidationError else Inr v)"

text \<open>\<open>validate_addresses_format\<close>: the loop raises at the first address that does not match.\<close>

fun validate_addresses_format_loop :: "str list \<Rightarrow> bool" where
  "validate_addresses_format_loop [] = True"
| "validate_addresses_format_loop (addr # rest) =
     (if \<not> match_evm_address addr then False else validate_addresses_format_loop rest)"

definition validate_addresses_format :: "str list \<Rightarrow> error + str list" where
  "validate_addresses_format v =
     (if validate_addresses_format_loop v then Inr v else Inl ValidationError)"

text \<open>\<open>SolanaAddressCriterion.validate_address_format\<close>.\<close>

fun validate_address_format_loop :: "str list \<Rightarrow> bool" where
  "validate_address_format_loop [] = True"
| "validate_address_format_loop (address # rest) =
     (if \<not> match_sol_address address then False else validate_address_format_loop rest)"

definition validate_address_format :: "str list \<Rightarrow> error + str list" where
  "validate_address_format v =
     (if validate_address_format_loop v then Inr v else Inl ValidationError)"

text \<open>The two \<open>validate_operator_enum\<close> validators of the EVM data parameter conditions.\<close>

definition validate_operator_enum :: "str \<Rightarrow> error + str" where
  "validate_operator_enum v =
     (if v \<notin> set (map lit [''>'', ''>='', ''<'', ''<='', ''=='']) then Inl ValidationError
      else Inr v)"

definition validate_operator_enum_list :: "str \<Rightarrow> error + str" where
  "validate_operator_enum_list v =
     (if v \<notin> set (map lit [''in'', ''not in'']) then Inl ValidationError else Inr v)"

text \<open>
  A field annotated \<open>Literal[...]\<close> accepts exactly the listed strings; anything else makes
  the constructor raise.
\<close>

definition literal :: "string list \<Rightarrow> str \<Rightarrow> bool" where
  "literal allowed v \<longleftrightarrow> v \<in> set (map lit allowed)"

definition Action :: "str \<Rightarrow> bool" where
  "Action v = literal [''reject'', ''accept''] v"

text \<open>Field validators run in turn; the first failure is the constructor's failure.\<close>

definition ok :: "error + 'a \<Rightarrow> bool" where
  "ok r = (case r of Inl _ \<Rightarrow> False | Inr _ \<Rightarrow> True)"


section \<open>The user-facing model (types.py)\<close>

text \<open>
  Each class of \<open>types.py\<close> is a constructor holding the fields of the class in the order
  of their declaration; the field \<open>type\<close> (or \<open>operation\<close>) of a class is a
  \<open>Literal\<close> with a default and is read off the constructor by \<open>criterion_type\<close>.
  The constructors are the objects; the functions \<open>new_...\<close> below are the calls of the
  classes, which validate.
\<close>

text \<open>\<open>EvmDataParameterCondition(name, operator, value)\<close> and
  \<open>EvmDataParameterConditionList(name, operator, values)\<close>.\<close>

datatype evm_data_parameter =
    EvmDataParameterCondition str str str
  | EvmDataParameterConditionList str str "str list"

text \<open>\<open>EvmDataCondition(function, params)\<close>; \<open>params\<close> is \<open>None\<close> or a list.\<close>

datatype evm_data_condition =
    EvmDataCondition str "evm_data_parameter list option"

text \<open>
  The field \<open>abi: KnownAbiType | AbiInner\<close>. \<open>KnownAbiType\<close> is a string enumeration,
  held by its value; an explicit ABI fragment is opaque to the transformers.
\<close>

typedecl abi_inner

datatype abi = KnownAbiType str | AbiInner abi_inner

text \<open>The three conditions of a typed-data field criterion:
  \<open>EvmTypedAddressCondition(addresses, operator, path)\<close>,
  \<open>EvmTypedNumericalCondition(value, operator, path)\<close>,
  \<open>EvmTypedStringCondition(match, path)\<close>.\<close>

datatype evm_typed_condition =
    EvmTypedAddressCondition "str list" str str
  | EvmTypedNumericalCondition str str str
  | EvmTypedStringCondition str str

text \<open>
  \<open>SignEvmTypedDataTypes(types, primaryType)\<close> with
  \<open>types: dict[str, list[dict[str, str]]]\<close>. The outer dictionary is kept as the list of
  its items in insertion order (its keys are distinct); an inner dictionary is a map, so
  that equality does not depend on the order of its keys.
\<close>

datatype sign_evm_typed_data_types =
    SignEvmTypedDataTypes "(str \<times> (str \<rightharpoonup> str) list) list" str

text \<open>
  The criteria. \<open>OtherCriterion t\<close> is any other object whose attribute \<open>type\<close> is
  \<open>t\<close> and that has none of the fields below: the transformers are duck-typed and read
  \<open>criterion.type\<close> of whatever they are given.
\<close>

datatype criterion =
    EthValueCriterion str str
  | EvmAddressCriterion "str list" str
  | EvmNetworkCriterion "str list" str
  | EvmDataCriterion abi "evm_data_condition list"
  | EvmMessageCriterion str
  | SignEvmTypedDataFieldCriterion sign_evm_typed_data_types "evm_typed_condition list"
  | SignEvmTypedDataVerifyingContractCriterion "str list" str
  | SolanaAddressCriterion "str list" str
  | OtherCriterion str

fun criterion_type :: "criterion \<Rightarrow> str" where
  "criterion_type (EthValueCriterion _ _) = lit ''ethValue''"
| "criterion_type (EvmAddressCriterion _ _) = lit ''evmAddress''"
| "criterion_type (EvmNetworkCriterion _ _) = lit ''evmNetwork''"
| "criterion_type (EvmDataCriterion _ _) = lit ''evmData''"
| "criterion_type (EvmMessageCriterion _) = lit ''evmMessage''"
| "criterion_type (SignEvmTypedDataFieldCriterion _ _) = lit ''evmTypedDataField''"
| "criterion_type (SignEvmTypedDataVerifyingContractCriterion _ _) =
     lit ''evmTypedDataVerifyingContract''"
| "criterion_type (SolanaAddressCriterion _ _) = lit ''solAddress''"
| "criterion_type (OtherCriterion t) = t"

text \<open>
  A rule object: \<open>criteria = None\<close> is an object without the attribute \<open>criteria\<close>
  (\<open>hasattr(rule, "criteria")\<close> is false), as \<open>SignEvmHashRule\<close> is. The class of a
  rule built by \<open>types.py\<close> is determined by its \<open>operation\<close>.
\<close>

record rule =
  action :: str
  operation :: str
  criteria :: "criterion list option"

subsection \<open>Constructing the models\<close>

definition new_EthValueCriterion :: "str \<Rightarrow> str \<Rightarrow> error + criterion" where
  "new_EthValueCriterion ethValue operator =
     (if ok (validate_eth_value ethValue) \<and>
         literal [''>'', ''<'', ''>='', ''<='', ''=='', ''!=''] operator
      then Inr (EthValueCriterion ethValue operator) else Inl ValidationError)"

definition new_EvmAddressCriterion :: "str list \<Rightarrow> str \<Rightarrow> error + criterion" where
  "new_EvmAddressCriterion addresses operator =
     (if ok (validate_addresses_length addresses) \<and> ok (validate_addresses_format addresses) \<and>
         literal [''in'', ''not in''] operator
      then Inr (EvmAddressCriterion addresses operator) else Inl ValidationError)"

definition new_EvmNetworkCriterion :: "str list \<Rightarrow> str \<Rightarrow> error + criterion" where
  "new_EvmNetworkCriterion networks operator =
     (if list_all (literal [''base-sepolia'', ''base'']) networks \<and>
         literal [''in'', ''not in''] operator
      then Inr (EvmNetworkCriterion networks operator) else Inl ValidationError)"

definition new_EvmDataParameterCondition :: "str \<Rightarrow> str \<Rightarrow> str \<Rightarrow> error + evm_data_parameter" where
  "new_EvmDataParameterCondition name operator v =
     (if ok (validate_operator_enum operator)
      then Inr (EvmDataParameterCondition name operator v) else Inl ValidationError)"

definition new_EvmDataParameterConditionList ::
  "str \<Rightarrow> str \<Rightarrow> str list \<Rightarrow> error + evm_data_parameter" where
  "new_EvmDataParameterConditionList name operator vs =
     (if ok (validate_operator_enum_list operator)
      then Inr (EvmDataParameterConditionList name operator vs) else Inl ValidationError)"

definition new_EvmDataCondition ::
  "str \<Rightarrow> evm_data_parameter list option \<Rightarrow> error + evm_data_condition" where
  "new_EvmDataCondition f ps = Inr (EvmDataCondition f ps)"

definition new_EvmDataCriterion :: "abi \<Rightarrow> evm_data_condition list \<Rightarrow> error + criterion" where
  "new_EvmDataCriterion a conditions = Inr (EvmDataCriterion a conditions)"

definition new_EvmMessageCriterion :: "str \<Rightarrow> error + criterion" where
  "new_EvmMessageCriterion m = Inr (EvmMessageCriterion m)"

definition new_EvmTypedAddressCondition ::
  "str list \<Rightarrow> str \<Rightarrow> str \<Rightarrow> error + evm_typed_condition" where
  "new_EvmTypedAddressCondition addresses operator path =
     (if ok (validate_addresses_length addresses) \<and> ok (validate_addresses_format addresses) \<and>
         literal [''in'', ''not in''] operator
      then Inr (EvmTypedAddressCondition addresses operator path) else Inl ValidationError)"

definition new_EvmTypedNumericalCondition ::
  "str \<Rightarrow> str \<Rightarrow> str \<Rightarrow> error + evm_typed_condition" where
  "new_EvmTypedNumericalCondition v operator path =
     (if ok (validate_value v) \<and> literal [''>'', ''<'', ''>='', ''<='', ''==''] operator
      then Inr (EvmTypedNumericalCondition v operator path) else Inl ValidationError)"

definition new_EvmTypedStringCondition :: "str \<Rightarrow> str \<Rightarrow> error + evm_typed_condition" where
  "new_EvmTypedStringCondition m path = Inr (EvmTypedStringCondition m path)"

definition new_SignEvmTypedDataTypes ::
  "(str \<times> (str \<rightharpoonup> str) list) list \<Rightarrow> str \<Rightarrow> error + sign_evm_typed_data_types" where
  "new_SignEvmTypedDataTypes tys primaryType = Inr (SignEvmTypedDataTypes tys primaryType)"

definition new_SignEvmTypedDataFieldCriterion ::
  "sign_evm_typed_data_types \<Rightarrow> evm_typed_condition list \<Rightarrow> error + criterion" where
  "new_SignEvmTypedDataFieldCriterion tys conditions =
     Inr (SignEvmTypedDataFieldCriterion tys conditions)"

definition new_SignEvmTypedDataVerifyingContractCriterion ::
  "str list \<Rightarrow> str \<Rightarrow> error + criterion" where
  "new_SignEvmTypedDataVerifyingContractCriterion addresses operator =
     (if ok (validate_addresses_length addresses) \<and> ok (validate_addresses_format addresses) \<and>
         literal [''in'', ''not in''] operator
      then Inr (SignEvmTypedDataVerifyingContractCriterion addresses operator)
      else Inl ValidationError)"

definition new_SolanaAddressCriterion :: "str list \<Rightarrow> str \<Rightarrow> error + criterion" where
  "new_SolanaAddressCriterion addresses operator =
     (if ok (validate_address_format addresses) \<and> literal [''in'', ''not in''] operator
      then Inr (SolanaAddressCriterion addresses operator) else Inl ValidationError)"



text \<open>
  The rule classes. \<open>rule_class(action=..., criteria=...)\<close> checks \<open>action\<close> against
  \<open>Action\<close> and every element of \<open>criteria\<close> against the union of criterion classes
  that the class declares; a class with a required field \<open>criteria\<close> rejects a call
  without it, and \<open>SignEvmHashRule\<close>, which declares no such field, ignores it.
\<close>

fun is_send_evm_transaction_criterion :: "criterion \<Rightarrow> bool" where
  "is_send_evm_transaction_criterion (EthValueCriterion _ _) = True"
| "is_send_evm_transaction_criterion (EvmAddressCriterion _ _) = True"
| "is_send_evm_transaction_criterion (EvmNetworkCriterion _ _) = True"
| "is_send_evm_transaction_criterion (EvmDataCriterion _ _) = True"
| "is_send_evm_transaction_criterion _ = False"

fun is_sign_evm_transaction_criterion :: "criterion \<Rightarrow> bool" where
  "is_sign_evm_transaction_criterion (EthValueCriterion _ _) = True"
| "is_sign_evm_transaction_criterion (EvmAddressCriterion _ _) = True"
| "is_sign_evm_transaction_criterion (EvmDataCriterion _ _) = True"
| "is_sign_evm_transaction_criterion _ = False"

fun is_sign_evm_message_criterion :: "criterion \<Rightarrow> bool" where
  "is_sign_evm_message_criterion (EvmMessageCriterion _) = True"
| "is_sign_evm_message_criterion _ = False"

fun is_sign_evm_typed_data_criterion :: "criterion \<Rightarrow> bool" where
  "is_sign_evm_typed_data_criterion (SignEvmTypedDataFieldCriterion _ _) = True"
| "is_sign_evm_typed_data_criterion (SignEvmTypedDataVerifyingContractCriterion _ _) = True"
| "is_sign_evm_typed_data_criterion _ = False"

fun is_sign_sol_transaction_criterion :: "criterion \<Rightarrow> bool" where
  "is_sign_sol_transaction_criterion (SolanaAddressCriterion _ _) = True"
| "is_sign_sol_transaction_criterion _ = False"

definition new_rule_with_criteria ::
  "string \<Rightarrow> (criterion \<Rightarrow> bool) \<Rightarrow> str \<Rightarrow> criterion list option \<Rightarrow> error + rule" where
  "new_rule_with_criteria op allowed a cs =
     (case cs of
        None \<Rightarrow> Inl ValidationError
      | Some cl \<Rightarrow>
          if Action a \<and> list_all allowed cl
          then Inr \<lparr>action = a, operation = lit op, criteria = Some cl\<rparr>
          else Inl ValidationError)"

definition new_SendEvmTransactionRule :: "str \<Rightarrow> criterion list option \<Rightarrow> error + rule" where
  "new_SendEvmTransactionRule =
     new_rule_with_criteria ''sendEvmTransaction'' is_send_evm_transaction_criterion"

definition new_SignEvmTransactionRule :: "str \<Rightarrow> criterion list option \<Rightarrow> error + rule" where
  "new_SignEvmTransactionRule =
     new_rule_with_criteria ''signEvmTransaction'' is_sign_evm_transaction_criterion"

definition new_SignEvmHashRule :: "str \<Rightarrow> criterion list option \<Rightarrow> error + rule" where
  "new_SignEvmHashRule a cs =
     (if Action a then Inr \<lparr>action = a, operation = lit ''signEvmHash'', criteria = None\<rparr>
      else Inl ValidationError)"

definition new_SignEvmMessageRule :: "str \<Rightarrow> criterion list option \<Rightarrow> error + rule" where
  "new_SignEvmMessageRule =
     new_rule_with_criteria ''signEvmMessage'' is_sign_evm_message_criterion"

definition new_SignEvmTypedDataRule :: "str \<Rightarrow> criterion list option \<Rightarrow> error + rule" where
  "new_SignEvmTypedDataRule =
     new_rule_with_criteria ''signEvmTypedData'' is_sign_evm_typed_data_criterion"

definition new_SignSolanaTransactionRule :: "str \<Rightarrow> criterion list option \<Rightarrow> error + rule" where
  "new_SignSolanaTransactionRule =
     new_rule_with_criteria ''signSolTransaction'' is_sign_sol_transaction_criterion"

section \<open>The wire model (openapi_client.models)\<close>

text \<open>
  Modelled from the spec: the generated classes of \<open>cdp.openapi_client.models\<close> that the
  transformers import (the criterion, condition and rule classes and their \<open>...Inner\<close>
  and \<open>Rule\<close> envelopes) are not among the sources. The spec (sections 1 and 6) takes
  them as a fixed wire schema with the same fields as the user-facing model under another
  casing, each union wrapped in an envelope with the field \<open>actual_instance\<close>. They are
  modelled as plain containers of the fields that the transformers pass and read, in the
  order in which \<open>request_transformer.py\<close> passes them; whatever further checks the
  generated constructors make is outside the model.
\<close>

datatype openapi_evm_data_parameter =
    OpenAPIEvmDataParameterCondition str str str
  | OpenAPIEvmDataParameterConditionList str str "str list"

datatype openapi_evm_data_condition_params_inner =
    EvmDataConditionParamsInner openapi_evm_data_parameter

datatype openapi_evm_data_condition =
    OpenAPIEvmDataCondition str "openapi_evm_data_condition_params_inner list option"

datatype openapi_evm_data_criterion_abi =
    EvmDataCriterionAbi abi

datatype openapi_evm_typed_condition =
    OpenAPIEvmTypedAddressCondition "str list" str str
  | OpenAPIEvmTypedNumericalCondition str str str
  | OpenAPIEvmTypedStringCondition str str

datatype openapi_conditions_inner =
    SignEvmTypedDataFieldCriterionConditionsInner openapi_evm_typed_condition

text \<open>
  Modelled from the spec: an element of a wire type definition has the fields \<open>name\<close>
  and \<open>type\<close> that \<open>response_transformer.py\<close> reads; they are optional, and a
  dictionary given for such an element fills them from its keys \<open>name\<close> and \<open>type\<close>.
\<close>

record openapi_types_value_inner =
  item_name :: "str option"
  item_type :: "str option"

definition types_value_inner_of_dict :: "(str \<rightharpoonup> str) \<Rightarrow> openapi_types_value_inner" where
  "types_value_inner_of_dict d = \<lparr>item_name = d (lit ''name''), item_type = d (lit ''type'')\<rparr>"

datatype openapi_typed_data_types =
    SignEvmTypedDataFieldCriterionTypes "(str \<times> openapi_types_value_inner list) list" str

text \<open>
  The wire criteria, each with its field \<open>type\<close> as the last argument.
  \<open>OpenAPIOtherCriterion t\<close> is any other wire criterion, of type \<open>t\<close>.
\<close>

datatype openapi_criterion =
    OpenAPIEthValueCriterion str str str
  | OpenAPIEvmAddressCriterion "str list" str str
  | OpenAPIEvmNetworkCriterion "str list" str str
  | OpenAPIEvmDataCriterion openapi_evm_data_criterion_abi "openapi_evm_data_condition list" str
  | OpenAPIEvmMessageCriterion str str
  | OpenAPISignEvmTypedDataFieldCriterion
      openapi_typed_data_types "openapi_conditions_inner list" str
  | OpenAPISignEvmTypedDataVerifyingContractCriterion "str list" str str
  | OpenAPISolAddressCriterion "str list" str str
  | OpenAPIOtherCriterion str

fun openapi_criterion_type :: "openapi_criterion \<Rightarrow> str" where
  "openapi_criterion_type (OpenAPIEthValueCriterion _ _ t) = t"
| "openapi_criterion_type (OpenAPIEvmAddressCriterion _ _ t) = t"
| "openapi_criterion_type (OpenAPIEvmNetworkCriterion _ _ t) = t"
| "openapi_criterion_type (OpenAPIEvmDataCriterion _ _ t) = t"
| "openapi_criterion_type (OpenAPIEvmMessageCriterion _ t) = t"
| "openapi_criterion_type (OpenAPISignEvmTypedDataFieldCriterion _ _ t) = t"
| "openapi_criterion_type (OpenAPISignEvmTypedDataVerifyingContractCriterion _ _ t) = t"
| "openapi_criterion_type (OpenAPISolAddressCriterion _ _ t) = t"
| "openapi_criterion_type (OpenAPIOtherCriterion t) = t"

datatype openapi_criteria_inner =
    SendEvmTransactionCriteriaInner openapi_criterion
  | SignEvmTransactionCriteriaInner openapi_criterion
  | SignEvmMessageCriteriaInner openapi_criterion
  | SignEvmTypedDataCriteriaInner openapi_criterion
  | SignSolTransactionCriteriaInner openapi_criterion

fun actual_instance :: "openapi_criteria_inner \<Rightarrow> openapi_criterion" where
  "actual_instance (SendEvmTransactionCriteriaInner c) = c"
| "actual_instance (SignEvmTransactionCriteriaInner c) = c"
| "actual_instance (SignEvmMessageCriteriaInner c) = c"
| "actual_instance (SignEvmTypedDataCriteriaInner c) = c"
| "actual_instance (SignSolTransactionCriteriaInner c) = c"

datatype openapi_rule_class =
    SendEvmTransactionRule
  | SignEvmTransactionRule
  | SignEvmHashRule
  | SignEvmMessageRule
  | SignEvmTypedDataRule
  | SignSolTransactionRule

text \<open>
  The instance of a wire rule class: \<open>o_criteria = None\<close> is an instance without the
  attribute \<open>criteria\<close>. \<open>Rule\<close> is the envelope \<open>Rule(actual_instance=...)\<close>.
\<close>

record openapi_rule_instance =
  o_class :: openapi_rule_class
  o_action :: str
  o_operation :: str
  o_criteria :: "openapi_criteria_inner list option"

datatype openapi_rule = Rule openapi_rule_instance

fun rule_actual_instance :: "openapi_rule \<Rightarrow> openapi_rule_instance" where
  "rule_actual_instance (Rule instance) = instance"

section \<open>The request transformer (request_transformer.py)\<close>

text \<open>
  The constructors of \<open>openapi_criterion_mapping\<close>. A lambda is only applied to an object
  whose \<open>type\<close> is the key it is registered under, and it reads the fields of the class
  of that tag; on an object without these fields the read raises \<open>AttributeError\<close>.
  The lambdas of \<open>sendEvmTransaction\<close> and \<open>signEvmTransaction\<close> differ only in
  the envelope, here the parameter \<open>inner\<close>.
\<close>

fun eth_value_builder ::
  "(openapi_criterion \<Rightarrow> openapi_criteria_inner) \<Rightarrow> criterion \<Rightarrow> error + openapi_criteria_inner" where
  "eth_value_builder inner (EthValueCriterion ethValue operator) =
     Inr (inner (OpenAPIEthValueCriterion ethValue operator (lit ''ethValue'')))"
| "eth_value_builder inner _ = Inl AttributeError"

fun evm_address_builder ::
  "(openapi_criterion \<Rightarrow> openapi_criteria_inner) \<Rightarrow> criterion \<Rightarrow> error + openapi_criteria_inner" where
  "evm_address_builder inner (EvmAddressCriterion addresses operator) =
     Inr (inner (OpenAPIEvmAddressCriterion addresses operator (lit ''evmAddress'')))"
| "evm_address_builder inner _ = Inl AttributeError"

fun evm_network_builder ::
  "(openapi_criterion \<Rightarrow> openapi_criteria_inner) \<Rightarrow> criterion \<Rightarrow> error + openapi_criteria_inner" where
  "evm_network_builder inner (EvmNetworkCriterion networks operator) =
     Inr (inner (OpenAPIEvmNetworkCriterion networks operator (lit ''evmNetwork'')))"
| "evm_network_builder inner _ = Inl AttributeError"

text \<open>\<open>EvmDataParameterConditionList(...) if hasattr(param, "values") else
  EvmDataParameterCondition(...)\<close>, in its envelope.\<close>

fun param_to_openapi :: "evm_data_parameter \<Rightarrow> openapi_evm_data_condition_params_inner" where
  "param_to_openapi (EvmDataParameterConditionList name operator vs) =
     EvmDataConditionParamsInner (OpenAPIEvmDataParameterConditionList name operator vs)"
| "param_to_openapi (EvmDataParameterCondition name operator v) =
     EvmDataConditionParamsInner (OpenAPIEvmDataParameterCondition name operator v)"

text \<open>\<open>params=[... for param in cond.params] if cond.params else None\<close>: both
  \<open>None\<close> and the empty list are false.\<close>

fun condition_to_openapi :: "evm_data_condition \<Rightarrow> openapi_evm_data_condition" where
  "condition_to_openapi (EvmDataCondition f ps) =
     OpenAPIEvmDataCondition f
       (case ps of
          None \<Rightarrow> None
        | Some pl \<Rightarrow> if pl \<noteq> [] then Some (map param_to_openapi pl) else None)"

text \<open>\<open>KnownAbiType(c.abi) if isinstance(c.abi, str) else c.abi\<close>: calling the
  enumeration on one of its members returns the member.\<close>

fun abi_to_openapi :: "abi \<Rightarrow> openapi_evm_data_criterion_abi" where
  "abi_to_openapi (KnownAbiType v) = EvmDataCriterionAbi (KnownAbiType v)"
| "abi_to_openapi (AbiInner a) = EvmDataCriterionAbi (AbiInner a)"

fun evm_data_builder ::
  "(openapi_criterion \<Rightarrow> openapi_criteria_inner) \<Rightarrow> criterion \<Rightarrow> error + openapi_criteria_inner" where
  "evm_data_builder inner (EvmDataCriterion a conditions) =
     Inr (inner (OpenAPIEvmDataCriterion (abi_to_openapi a)
                   (map condition_to_openapi conditions) (lit ''evmData'')))"
| "evm_data_builder inner _ = Inl AttributeError"

fun evm_message_builder :: "criterion \<Rightarrow> error + openapi_criteria_inner" where
  "evm_message_builder (EvmMessageCriterion m) =
     Inr (SignEvmMessageCriteriaInner (OpenAPIEvmMessageCriterion m (lit ''evmMessage'')))"
| "evm_message_builder _ = Inl AttributeError"

text \<open>The condition of a typed-data field: by \<open>hasattr(cond, "addresses")\<close>, then
  \<open>hasattr(cond, "value")\<close>, else the string condition.\<close>

fun typed_condition_to_openapi :: "evm_typed_condition \<Rightarrow> openapi_conditions_inner" where
  "typed_condition_to_openapi (EvmTypedAddressCondition addresses operator path) =
     SignEvmTypedDataFieldCriterionConditionsInner
       (OpenAPIEvmTypedAddressCondition addresses operator path)"
| "typed_condition_to_openapi (EvmTypedNumericalCondition v operator path) =
     SignEvmTypedDataFieldCriterionConditionsInner
       (OpenAPIEvmTypedNumericalCondition v operator path)"
| "typed_condition_to_openapi (EvmTypedStringCondition m path) =
     SignEvmTypedDataFieldCriterionConditionsInner (OpenAPIEvmTypedStringCondition m path)"

text \<open>\<open>SignEvmTypedDataFieldCriterionTypes(types=c.types.types,
  primary_type=c.types.primaryType)\<close>.\<close>

fun types_to_openapi :: "sign_evm_typed_data_types \<Rightarrow> openapi_typed_data_types" where
  "types_to_openapi (SignEvmTypedDataTypes tys primaryType) =
     SignEvmTypedDataFieldCriterionTypes
       (map (\<lambda>(key, v). (key, map types_value_inner_of_dict v)) tys) primaryType"

fun evm_typed_data_field_builder :: "criterion \<Rightarrow> error + openapi_criteria_inner" where
  "evm_typed_data_field_builder (SignEvmTypedDataFieldCriterion tys conditions) =
     Inr (SignEvmTypedDataCriteriaInner
            (OpenAPISignEvmTypedDataFieldCriterion (types_to_openapi tys)
               (map typed_condition_to_openapi conditions) (lit ''evmTypedDataField'')))"
| "evm_typed_data_field_builder _ = Inl AttributeError"

fun evm_typed_data_verifying_contract_builder :: "criterion \<Rightarrow> error + openapi_criteria_inner" where
  "evm_typed_data_verifying_contract_builder
       (SignEvmTypedDataVerifyingContractCriterion addresses operator) =
     Inr (SignEvmTypedDataCriteriaInner
            (OpenAPISignEvmTypedDataVerifyingContractCriterion addresses operator
               (lit ''evmTypedDataVerifyingContract'')))"
| "evm_typed_data_verifying_contract_builder _ = Inl AttributeError"

fun sol_address_builder :: "criterion \<Rightarrow> error + openapi_criteria_inner" where
  "sol_address_builder (SolanaAddressCriterion addresses operator) =
     Inr (SignSolTransactionCriteriaInner
            (OpenAPISolAddressCriterion addresses operator (lit ''solAddress'')))"
| "sol_address_builder _ = Inl AttributeError"

text \<open>The two dictionaries, as the lists of their items.\<close>

definition openapi_criterion_mapping ::
  "(str \<times> (str \<times> (criterion \<Rightarrow> error + openapi_criteria_inner)) list) list" where
  "openapi_criterion_mapping =
     [(lit ''sendEvmTransaction'',
         [(lit ''ethValue'', eth_value_builder SendEvmTransactionCriteriaInner),
          (lit ''evmAddress'', evm_address_builder SendEvmTransactionCriteriaInner),
          (lit ''evmNetwork'', evm_network_builder SendEvmTransactionCriteriaInner),
          (lit ''evmData'', evm_data_builder SendEvmTransactionCriteriaInner)]),
      (lit ''signEvmTransaction'',
         [(lit ''ethValue'', eth_value_builder SignEvmTransactionCriteriaInner),
          (lit ''evmAddress'', evm_address_builder SignEvmTransactionCriteriaInner),
          (lit ''evmData'', evm_data_builder SignEvmTransactionCriteriaInner)]),
      (lit ''signEvmHash'', []),
      (lit ''signEvmMessage'',
         [(lit ''evmMessage'', evm_message_builder)]),
      (lit ''signEvmTypedData'',
         [(lit ''evmTypedDataField'', evm_typed_data_field_builder),
          (lit ''evmTypedDataVerifyingContract'', evm_typed_data_verifying_contract_builder)]),
      (lit ''signSolTransaction'',
         [(lit ''solAddress'', sol_address_builder)])]"

definition openapi_rule_mapping :: "(str \<times> openapi_rule_class) list" where
  "openapi_rule_mapping =
     [(lit ''sendEvmTransaction'', SendEvmTransactionRule),
      (lit ''signEvmTransaction'', SignEvmTransactionRule),
      (lit ''signEvmHash'', SignEvmHashRule),
      (lit ''signEvmMessage'', SignEvmMessageRule),
      (lit ''signEvmTypedData'', SignEvmTypedDataRule),
      (lit ''signSolTransaction'', SignSolTransactionRule)]"

text \<open>The body of the inner loop for one criterion: the wire criterion that it appends,
  or the exception that it raises.\<close>

definition request_criterion ::
  "(str \<times> (criterion \<Rightarrow> error + openapi_criteria_inner)) list \<Rightarrow> str \<Rightarrow> criterion \<Rightarrow>
   error + openapi_criteria_inner" where
  "request_criterion criteria_builders op c =
     (case map_of criteria_builders (criterion_type c) of
        None \<Rightarrow> Inl (UnknownCriterionType (criterion_type c) (Some op))
      | Some builder \<Rightarrow> builder c)"

text \<open>The inner loop \<open>for criterion in rule.criteria\<close>, with the list \<open>criteria\<close>
  built so far.\<close>

fun request_criteria_loop ::
  "(str \<times> (criterion \<Rightarrow> error + openapi_criteria_inner)) list \<Rightarrow> str \<Rightarrow>
   openapi_criteria_inner list \<Rightarrow> criterion list \<Rightarrow> error + openapi_criteria_inner list" where
  "request_criteria_loop criteria_builders op acc [] = Inr acc"
| "request_criteria_loop criteria_builders op acc (c # rest) =
     (case request_criterion criteria_builders op c of
        Inl e \<Rightarrow> Inl e
      | Inr w \<Rightarrow> request_criteria_loop criteria_builders op (acc @ [w]) rest)"

text \<open>The body of the outer loop for one rule: the wire rule that it appends, or the
  exception that it raises.\<close>

definition request_rule :: "rule \<Rightarrow> error + openapi_rule" where
  "request_rule r =
     (case map_of openapi_criterion_mapping (operation r) of
        None \<Rightarrow> Inl (UnknownOperation (operation r))
      | Some criteria_builders \<Rightarrow>
          (case map_of openapi_rule_mapping (operation r) of
             None \<Rightarrow> Inl KeyError
           | Some rule_cls \<Rightarrow>
               (case criteria r of
                  None \<Rightarrow>
                    Inr (Rule \<lparr>o_class = rule_cls, o_action = action r,
                               o_operation = operation r, o_criteria = None\<rparr>)
                | Some cs \<Rightarrow>
                    (case request_criteria_loop criteria_builders (operation r) [] cs of
                       Inl e \<Rightarrow> Inl e
                     | Inr cl \<Rightarrow>
                         Inr (Rule \<lparr>o_class = rule_cls, o_action = action r,
                                    o_operation = operation r, o_criteria = Some cl\<rparr>)))))"

text \<open>The outer loop \<open>for rule in request_rules\<close>, with the list \<open>rules\<close> built so
  far.\<close>

fun request_rules_loop :: "openapi_rule list \<Rightarrow> rule list \<Rightarrow> error + openapi_rule list" where
  "request_rules_loop rules [] = Inr rules"
| "request_rules_loop rules (r # rest) =
     (case request_rule r of
        Inl e \<Rightarrow> Inl e
      | Inr w \<Rightarrow> request_rules_loop (rules @ [w]) rest)"

definition map_request_rules_to_openapi_format :: "rule list \<Rightarrow> error + openapi_rule list" where
  "map_request_rules_to_openapi_format request_rules = request_rules_loop [] request_rules"

section \<open>The response transformer (response_transformer.py)\<close>

text \<open>
  A list comprehension whose element expression may raise: the elements are built from
  left to right and the first exception ends the comprehension.
\<close>

fun comprehension :: "('a \<Rightarrow> error + 'b) \<Rightarrow> 'a list \<Rightarrow> error + 'b list" where
  "comprehension f [] = Inr []"
| "comprehension f (x # xs) =
     (case f x of
        Inl e \<Rightarrow> Inl e
      | Inr y \<Rightarrow> (case comprehension f xs of Inl e \<Rightarrow> Inl e | Inr ys \<Rightarrow> Inr (y # ys)))"

text \<open>
  The constructors of \<open>response_criterion_mapping\<close>. They call the classes of
  \<open>types.py\<close>, which validate; the default of the field \<open>type\<close> is used.
\<close>

fun response_eth_value :: "openapi_criterion \<Rightarrow> error + criterion" where
  "response_eth_value (OpenAPIEthValueCriterion eth_value operator _) =
     new_EthValueCriterion eth_value operator"
| "response_eth_value _ = Inl AttributeError"

fun response_evm_address :: "openapi_criterion \<Rightarrow> error + criterion" where
  "response_evm_address (OpenAPIEvmAddressCriterion addresses operator _) =
     new_EvmAddressCriterion addresses operator"
| "response_evm_address _ = Inl AttributeError"

fun response_evm_network :: "openapi_criterion \<Rightarrow> error + criterion" where
  "response_evm_network (OpenAPIEvmNetworkCriterion networks operator _) =
     new_EvmNetworkCriterion networks operator"
| "response_evm_network _ = Inl AttributeError"

text \<open>By \<open>hasattr(param.actual_instance, "values")\<close>.\<close>

fun param_to_response ::
  "openapi_evm_data_condition_params_inner \<Rightarrow> error + evm_data_parameter" where
  "param_to_response (EvmDataConditionParamsInner
       (OpenAPIEvmDataParameterConditionList name operator vs)) =
     new_EvmDataParameterConditionList name operator vs"
| "param_to_response (EvmDataConditionParamsInner
       (OpenAPIEvmDataParameterCondition name operator v)) =
     new_EvmDataParameterCondition name operator v"

text \<open>\<open>params=([...] if cond.params else None)\<close>.\<close>

fun condition_to_response :: "openapi_evm_data_condition \<Rightarrow> error + evm_data_condition" where
  "condition_to_response (OpenAPIEvmDataCondition f ps) =
     (case ps of
        None \<Rightarrow> new_EvmDataCondition f None
      | Some pl \<Rightarrow>
          if pl \<noteq> [] then
            (case comprehension param_to_response pl of
               Inl e \<Rightarrow> Inl e
             | Inr l \<Rightarrow> new_EvmDataCondition f (Some l))
          else new_EvmDataCondition f None)"

fun abi_actual_instance :: "openapi_evm_data_criterion_abi \<Rightarrow> abi" where
  "abi_actual_instance (EvmDataCriterionAbi a) = a"

fun response_evm_data :: "openapi_criterion \<Rightarrow> error + criterion" where
  "response_evm_data (OpenAPIEvmDataCriterion a conditions _) =
     (case comprehension condition_to_response conditions of
        Inl e \<Rightarrow> Inl e
      | Inr l \<Rightarrow> new_EvmDataCriterion (abi_actual_instance a) l)"
| "response_evm_data _ = Inl AttributeError"

fun response_evm_message :: "openapi_criterion \<Rightarrow> error + criterion" where
  "response_evm_message (OpenAPIEvmMessageCriterion m _) = new_EvmMessageCriterion m"
| "response_evm_message _ = Inl AttributeError"

text \<open>
  \<open>{"name": item.name, "type": item.type}\<close>. The field
  \<open>types: dict[str, list[dict[str, str]]]\<close> of \<open>SignEvmTypedDataTypes\<close> rejects the
  dictionary when one of the two values is \<open>None\<close>.
\<close>

definition name_type_dict :: "openapi_types_value_inner \<Rightarrow> error + (str \<rightharpoonup> str)" where
  "name_type_dict item =
     (case item_name item of
        None \<Rightarrow> Inl ValidationError
      | Some n \<Rightarrow>
          (case item_type item of
             None \<Rightarrow> Inl ValidationError
           | Some t \<Rightarrow> Inr [lit ''name'' \<mapsto> n, lit ''type'' \<mapsto> t]))"

text \<open>\<open>{key: [... for item in value] for key, value in c.types.types.items()}\<close>.\<close>

definition types_item_to_response ::
  "str \<times> openapi_types_value_inner list \<Rightarrow> error + (str \<times> (str \<rightharpoonup> str) list)" where
  "types_item_to_response kv =
     (case comprehension name_type_dict (snd kv) of
        Inl e \<Rightarrow> Inl e
      | Inr l \<Rightarrow> Inr (fst kv, l))"

fun types_to_response :: "openapi_typed_data_types \<Rightarrow> error + sign_evm_typed_data_types" where
  "types_to_response (SignEvmTypedDataFieldCriterionTypes tys primary_type) =
     (case comprehension types_item_to_response tys of
        Inl e \<Rightarrow> Inl e
      | Inr l \<Rightarrow> new_SignEvmTypedDataTypes l primary_type)"

text \<open>By \<open>hasattr(cond.actual_instance, "addresses")\<close>, then
  \<open>hasattr(cond.actual_instance, "value")\<close>.\<close>

fun typed_condition_to_response :: "openapi_conditions_inner \<Rightarrow> error + evm_typed_condition" where
  "typed_condition_to_response (SignEvmTypedDataFieldCriterionConditionsInner
       (OpenAPIEvmTypedAddressCondition addresses operator path)) =
     new_EvmTypedAddressCondition addresses operator path"
| "typed_condition_to_response (SignEvmTypedDataFieldCriterionConditionsInner
       (OpenAPIEvmTypedNumericalCondition v operator path)) =
     new_EvmTypedNumericalCondition v operator path"
| "typed_condition_to_response (SignEvmTypedDataFieldCriterionConditionsInner
       (OpenAPIEvmTypedStringCondition m path)) =
     new_EvmTypedStringCondition m path"

fun response_evm_typed_data_field :: "openapi_criterion \<Rightarrow> error + criterion" where
  "response_evm_typed_data_field (OpenAPISignEvmTypedDataFieldCriterion tys conditions _) =
     (case types_to_response tys of
        Inl e \<Rightarrow> Inl e
      | Inr t \<Rightarrow>
          (case comprehension typed_condition_to_response conditions of
             Inl e \<Rightarrow> Inl e
           | Inr l \<Rightarrow> new_SignEvmTypedDataFieldCriterion t l))"
| "response_evm_typed_data_field _ = Inl AttributeError"

fun response_evm_typed_data_verifying_contract :: "openapi_criterion \<Rightarrow> error + criterion" where
  "response_evm_typed_data_verifying_contract
       (OpenAPISignEvmTypedDataVerifyingContractCriterion addresses operator _) =
     new_SignEvmTypedDataVerifyingContractCriterion addresses operator"
| "response_evm_typed_data_verifying_contract _ = Inl AttributeError"

fun response_sol_address :: "openapi_criterion \<Rightarrow> error + criterion" where
  "response_sol_address (OpenAPISolAddressCriterion addresses operator _) =
     new_SolanaAddressCriterion addresses operator"
| "response_sol_address _ = Inl AttributeError"

definition response_criterion_mapping ::
  "(str \<times> (str \<times> (openapi_criterion \<Rightarrow> error + criterion)) list) list" where
  "response_criterion_mapping =
     [(lit ''sendEvmTransaction'',
         [(lit ''ethValue'', response_eth_value),
          (lit ''evmAddress'', response_evm_address),
          (lit ''evmNetwork'', response_evm_network),
          (lit ''evmData'', response_evm_data)]),
      (lit ''signEvmTransaction'',
         [(lit ''ethValue'', response_eth_value),
          (lit ''evmAddress'', response_evm_address),
          (lit ''evmData'', response_evm_data)]),
      (lit ''signEvmHash'', []),
      (lit ''signEvmMessage'',
         [(lit ''evmMessage'', response_evm_message)]),
      (lit ''signEvmTypedData'',
         [(lit ''evmTypedDataField'', response_evm_typed_data_field),
          (lit ''evmTypedDataVerifyingContract'', response_evm_typed_data_verifying_contract)]),
      (lit ''signSolTransaction'',
         [(lit ''solAddress'', response_sol_address)])]"

definition response_rule_mapping ::
  "(str \<times> (str \<Rightarrow> criterion list option \<Rightarrow> error + rule)) list" where
  "response_rule_mapping =
     [(lit ''sendEvmTransaction'', new_SendEvmTransactionRule),
      (lit ''signEvmTransaction'', new_SignEvmTransactionRule),
      (lit ''signEvmHash'', new_SignEvmHashRule),
      (lit ''signEvmMessage'', new_SignEvmMessageRule),
      (lit ''signEvmTypedData'', new_SignEvmTypedDataRule),
      (lit ''signSolTransaction'', new_SignSolanaTransactionRule)]"

text \<open>The body of the inner loop for one wire criterion.\<close>

definition response_criterion ::
  "(str \<times> (openapi_criterion \<Rightarrow> error + criterion)) list \<Rightarrow> openapi_criteria_inner \<Rightarrow>
   error + criterion" where
  "response_criterion criteria_constructors criterion_wrapper =
     (let c = actual_instance criterion_wrapper in
      case map_of criteria_constructors (openapi_criterion_type c) of
        None \<Rightarrow> Inl (UnknownCriterionType (openapi_criterion_type c) None)
      | Some constructor \<Rightarrow> constructor c)"

text \<open>The inner loop \<open>for criterion_wrapper in instance.criteria\<close>.\<close>

fun response_criteria_loop ::
  "(str \<times> (openapi_criterion \<Rightarrow> error + criterion)) list \<Rightarrow>
   criterion list \<Rightarrow> openapi_criteria_inner list \<Rightarrow> error + criterion list" where
  "response_criteria_loop criteria_constructors acc [] = Inr acc"
| "response_criteria_loop criteria_constructors acc (criterion_wrapper # rest) =
     (case response_criterion criteria_constructors criterion_wrapper of
        Inl e \<Rightarrow> Inl e
      | Inr c \<Rightarrow> response_criteria_loop criteria_constructors (acc @ [c]) rest)"

text \<open>The body of the outer loop for one wire rule.\<close>

definition response_rule :: "openapi_rule \<Rightarrow> error + rule" where
  "response_rule w =
     (let inst = rule_actual_instance w; op = o_operation inst in
      case map_of response_criterion_mapping op of
        None \<Rightarrow> Inl (UnknownOperation op)
      | Some criteria_constructors \<Rightarrow>
          (case map_of response_rule_mapping op of
             None \<Rightarrow> Inl KeyError
           | Some rule_class \<Rightarrow>
               (case o_criteria inst of
                  None \<Rightarrow> rule_class (o_action inst) None
                | Some cs \<Rightarrow>
                    (case response_criteria_loop criteria_constructors [] cs of
                       Inl e \<Rightarrow> Inl e
                     | Inr cl \<Rightarrow> rule_class (o_action inst) (Some cl)))))"

fun response_rules_loop :: "rule list \<Rightarrow> openapi_rule list \<Rightarrow> error + rule list" where
  "response_rules_loop response_rules [] = Inr response_rules"
| "response_rules_loop response_rules (w # rest) =
     (case response_rule w of
        Inl e \<Rightarrow> Inl e
      | Inr r \<Rightarrow> response_rules_loop (response_rules @ [r]) rest)"

definition map_openapi_rules_to_response_format :: "openapi_rule list \<Rightarrow> error + rule list" where
  "map_openapi_rules_to_response_format openapi_rules = response_rules_loop [] openapi_rules"

text \<open>\<open>from_wire(to_wire(rules))\<close>.\<close>

definition round_trip :: "rule list \<Rightarrow> error + rule list" where
  "round_trip rules =
     (case map_request_rules_to_openapi_format rules of
        Inl e \<Rightarrow> Inl e
      | Inr ws \<Rightarrow> map_openapi_rules_to_response_format ws)"

section \<open>Valid rules\<close>

text \<open>
  A valid user-facing object is one that the classes of \<open>types.py\<close> construct: its own
  constructor accepts its fields, and so do the constructors of the objects it holds.
\<close>

fun valid_parameter :: "evm_data_parameter \<Rightarrow> bool" where
  "valid_parameter (EvmDataParameterCondition name operator v) =
     ok (new_EvmDataParameterCondition name operator v)"
| "valid_parameter (EvmDataParameterConditionList name operator vs) =
     ok (new_EvmDataParameterConditionList name operator vs)"

fun valid_condition :: "evm_data_condition \<Rightarrow> bool" where
  "valid_condition (EvmDataCondition f ps) =
     (case ps of None \<Rightarrow> True | Some pl \<Rightarrow> list_all valid_parameter pl)"

fun valid_typed_condition :: "evm_typed_condition \<Rightarrow> bool" where
  "valid_typed_condition (EvmTypedAddressCondition addresses operator path) =
     ok (new_EvmTypedAddressCondition addresses operator path)"
| "valid_typed_condition (EvmTypedNumericalCondition v operator path) =
     ok (new_EvmTypedNumericalCondition v operator path)"
| "valid_typed_condition (EvmTypedStringCondition m path) = True"

fun valid_criterion :: "criterion \<Rightarrow> bool" where
  "valid_criterion (EthValueCriterion ethValue operator) =
     ok (new_EthValueCriterion ethValue operator)"
| "valid_criterion (EvmAddressCriterion addresses operator) =
     ok (new_EvmAddressCriterion addresses operator)"
| "valid_criterion (EvmNetworkCriterion networks operator) =
     ok (new_EvmNetworkCriterion networks operator)"
| "valid_criterion (EvmDataCriterion a conditions) = list_all valid_condition conditions"
| "valid_criterion (EvmMessageCriterion m) = True"
| "valid_criterion (SignEvmTypedDataFieldCriterion tys conditions) =
     list_all valid_typed_condition conditions"
| "valid_criterion (SignEvmTypedDataVerifyingContractCriterion addresses operator) =
     ok (new_SignEvmTypedDataVerifyingContractCriterion addresses operator)"
| "valid_criterion (SolanaAddressCriterion addresses operator) =
     ok (new_SolanaAddressCriterion addresses operator)"
| "valid_criterion (OtherCriterion t) = False"

definition valid_rule :: "rule \<Rightarrow> bool" where
  "valid_rule r \<longleftrightarrow>
     (case map_of response_rule_mapping (operation r) of
        None \<Rightarrow> False
      | Some rule_class \<Rightarrow> rule_class (action r) (criteria r) = Inr r) \<and>
     (case criteria r of None \<Rightarrow> True | Some cs \<Rightarrow> list_all valid_criterion cs)"

text \<open>
  Two shapes that a valid rule may have and that the transformers do not keep: an EVM data
  condition whose \<open>params\<close> is the empty list, and a typed-data field definition whose
  keys are not exactly \<open>name\<close> and \<open>type\<close>.
\<close>

fun params_not_empty :: "evm_data_condition \<Rightarrow> bool" where
  "params_not_empty (EvmDataCondition f ps) = (ps \<noteq> Some [])"

fun name_type_keys :: "sign_evm_typed_data_types \<Rightarrow> bool" where
  "name_type_keys (SignEvmTypedDataTypes tys primaryType) =
     (\<forall>kv \<in> set tys. \<forall>d \<in> set (snd kv). dom d = {lit ''name'', lit ''type''})"

fun kept_by_transformers :: "criterion \<Rightarrow> bool" where
  "kept_by_transformers (EvmDataCriterion a conditions) = list_all params_not_empty conditions"
| "kept_by_transformers (SignEvmTypedDataFieldCriterion tys conditions) = name_type_keys tys"
| "kept_by_transformers _ = True"

definition kept_rule :: "rule \<Rightarrow> bool" where
  "kept_rule r \<longleftrightarrow>
     (case criteria r of None \<Rightarrow> True | Some cs \<Rightarrow> list_all kept_by_transformers cs)"

text \<open>
  A representative valid rule for every operation, covering every criterion class and
  every nested variant (spec, section 8).
\<close>

definition representative_rules :: "rule list" where
  "representative_rules =
     [\<lparr>action = lit ''accept'', operation = lit ''sendEvmTransaction'',
       criteria = Some
         [EthValueCriterion (lit ''1000'') (lit ''<=''),
          EvmAddressCriterion [lit ''0x0123456789abcdefABCDEF0123456789abcdefAB''] (lit ''in''),
          EvmNetworkCriterion [lit ''base'', lit ''base-sepolia''] (lit ''in''),
          EvmDataCriterion (KnownAbiType (lit ''erc20''))
            [EvmDataCondition (lit ''transfer'')
               (Some [EvmDataParameterCondition (lit ''value'') (lit ''<='') (lit ''1000''),
                      EvmDataParameterConditionList (lit ''to'') (lit ''in'')
                        [lit ''0x0123456789abcdefABCDEF0123456789abcdefAB'']]),
             EvmDataCondition (lit ''approve'') None]]\<rparr>,
      \<lparr>action = lit ''reject'', operation = lit ''signEvmTransaction'',
       criteria = Some
         [EthValueCriterion (lit ''0'') (lit ''==''),
          EvmAddressCriterion [lit ''0x0123456789abcdefABCDEF0123456789abcdefAB'']
            (lit ''not in''),
          EvmDataCriterion (KnownAbiType (lit ''erc721''))
            [EvmDataCondition (lit ''approve'') None]]\<rparr>,
      \<lparr>action = lit ''accept'', operation = lit ''signEvmHash'', criteria = None\<rparr>,
      \<lparr>action = lit ''accept'', operation = lit ''signEvmMessage'',
       criteria = Some [EvmMessageCriterion (lit ''^hello'')]\<rparr>,
      \<lparr>action = lit ''accept'', operation = lit ''signEvmTypedData'',
       criteria = Some
         [SignEvmTypedDataFieldCriterion
            (SignEvmTypedDataTypes
               [(lit ''Transfer'',
                 [[lit ''name'' \<mapsto> lit ''to'', lit ''type'' \<mapsto> lit ''address''],
                  [lit ''name'' \<mapsto> lit ''amount'', lit ''type'' \<mapsto> lit ''uint256''],
                  [lit ''name'' \<mapsto> lit ''memo'', lit ''type'' \<mapsto> lit ''string'']])]
               (lit ''Transfer''))
            [EvmTypedAddressCondition [lit ''0x0123456789abcdefABCDEF0123456789abcdefAB'']
               (lit ''in'') (lit ''to''),
             EvmTypedNumericalCondition (lit ''1000'') (lit ''<'') (lit ''amount''),
             EvmTypedStringCondition (lit ''^ok'') (lit ''memo'')],
          SignEvmTypedDataVerifyingContractCriterion
            [lit ''0x0123456789abcdefABCDEF0123456789abcdefAB''] (lit ''in'')]\<rparr>,
      \<lparr>action = lit ''reject'', operation = lit ''signSolTransaction'',
       criteria = Some
         [SolanaAddressCriterion [lit ''HpabPRRCFbBKSuJr5PdkVvQc85FyxyTWkFM2obBRSvHT'']
            (lit ''in'')]\<rparr>]"

text \<open>
  An object that carries one of the eight criterion tags is an instance of the class of
  that tag.
\<close>

definition criterion_tags :: "str list" where
  "criterion_tags =
     map lit [''ethValue'', ''evmAddress'', ''evmNetwork'', ''evmData'', ''evmMessage'',
              ''evmTypedDataField'', ''evmTypedDataVerifyingContract'', ''solAddress'']"

fun tag_of_its_class :: "criterion \<Rightarrow> bool" where
  "tag_of_its_class (OtherCriterion t) = (t \<notin> set criterion_tags)"
| "tag_of_its_class _ = True"

text \<open>The legality table of the spec (section 4.4): operation and allowed criterion types.\<close>

definition legality_table :: "(str \<times> str list) list" where
  "legality_table =
     [(lit ''sendEvmTransaction'',
         map lit [''ethValue'', ''evmAddress'', ''evmNetwork'', ''evmData'']),
      (lit ''signEvmTransaction'', map lit [''ethValue'', ''evmAddress'', ''evmData'']),
      (lit ''signEvmHash'', []),
      (lit ''signEvmMessage'', map lit [''evmMessage'']),
      (lit ''signEvmTypedData'',
         map lit [''evmTypedDataField'', ''evmTypedDataVerifyingContract'']),
      (lit ''signSolTransaction'', map lit [''solAddress''])]"

definition supported_operations :: "str list" where
  "supported_operations =
     map lit [''sendEvmTransaction'', ''signEvmTransaction'', ''signEvmHash'',
              ''signEvmMessage'', ''signEvmTypedData'', ''signSolTransaction'']"

section \<open>Properties of the validators\<close>

lemma lit_eq_iff [simp]: "lit a = lit b \<longleftrightarrow> a = b"
  unfolding lit_def by (simp add: inj_def)

lemma validate_addresses_format_loop_iff:
  "validate_addresses_format_loop v \<longleftrightarrow> (\<forall>addr \<in> set v. match_evm_address addr)"
  by (induction v) auto

lemma validate_address_format_loop_iff:
  "validate_address_format_loop v \<longleftrightarrow> (\<forall>address \<in> set v. match_sol_address address)"
  by (induction v) auto

lemma match_evm_address_length:
  assumes "match_evm_address addr"
  shows "length addr = 42 \<or> length addr = 43"
proof -
  from assms have len: "length (take 40 (drop 2 addr)) = 40" and e: "re_end (drop 42 addr)"
    by (simp_all add: match_evm_address_def)
  from len have "42 \<le> length addr" by simp
  moreover have "length (drop 42 addr) \<le> 1"
  proof (cases "drop 42 addr = []")
    case True
    then show ?thesis by simp
  next
    case False
    with e have "drop 42 addr = [10]" by (simp add: re_end_def)
    then have "length (drop 42 addr) = length [10::nat]" by (rule arg_cong)
    then show ?thesis by simp
  qed
  ultimately show ?thesis by auto
qed

lemma ascii_digit_isdigit_char: "ascii_digit c \<Longrightarrow> isdigit_char c"
  by (simp add: ascii_digit_def isdigit_char_def isdigit_ranges_def)

text \<open>
  C4: constructing an \<open>EvmAddressCriterion\<close> (its operator being one of its two literals)
  raises a validation error if and only if some address of the list does not match
  \<open>^0x[0-9a-fA-F]{40}$\<close> or the list has more than 300 addresses. Whatever the operator,
  it raises in both of these cases, and in particular when an address has 41 characters and
  when there are 301 addresses.
\<close>

theorem EvmAddressCriterion_raises_iff:
  "(literal [''in'', ''not in''] operator \<longrightarrow>
      (new_EvmAddressCriterion addresses operator = Inl ValidationError \<longleftrightarrow>
         (\<exists>addr \<in> set addresses. \<not> match_evm_address addr) \<or> 300 < length addresses))
   \<and> ((\<exists>addr \<in> set addresses. \<not> match_evm_address addr) \<or> 300 < length addresses \<longrightarrow>
        new_EvmAddressCriterion addresses operator = Inl ValidationError)
   \<and> ((\<exists>addr \<in> set addresses. length addr = 41) \<longrightarrow>
        new_EvmAddressCriterion addresses operator = Inl ValidationError)
   \<and> (length addresses = 301 \<longrightarrow>
        new_EvmAddressCriterion addresses operator = Inl ValidationError)"
proof -
  have iff: "new_EvmAddressCriterion addresses operator = Inl ValidationError \<longleftrightarrow>
            (\<exists>addr \<in> set addresses. \<not> match_evm_address addr) \<or> 300 < length addresses"
    if "literal [''in'', ''not in''] operator"
    using that
    by (auto simp: new_EvmAddressCriterion_def ok_def validate_addresses_length_def
        validate_addresses_format_def validate_addresses_format_loop_iff)
  have bad: "new_EvmAddressCriterion addresses operator = Inl ValidationError"
    if "(\<exists>addr \<in> set addresses. \<not> match_evm_address addr) \<or> 300 < length addresses"
    using that
    by (auto simp: new_EvmAddressCriterion_def ok_def validate_addresses_length_def
        validate_addresses_format_def validate_addresses_format_loop_iff)
  have "\<not> match_evm_address addr" if "length addr = 41" for addr
    using match_evm_address_length [of addr] that by auto
  with iff bad show ?thesis by auto
qed

theorem EvmAddressCriterion_raises_iff_witness:
  "literal [''in'', ''not in''] (lit ''in'')
   \<and> new_EvmAddressCriterion [lit ''0x0123456789abcdefABCDEF0123456789abcdefA''] (lit ''in'')
       = Inl ValidationError
   \<and> new_EvmAddressCriterion [lit ''0x0123456789abcdefABCDEF0123456789abcdefAB''] (lit ''in'')
       \<noteq> Inl ValidationError"
proof -
  have h: "literal [''in'', ''not in''] (lit ''in'')"
    by (simp add: literal_def)
  have m: "match_evm_address (lit ''0x0123456789abcdefABCDEF0123456789abcdefAB'')"
    by (simp add: match_evm_address_def lit_def hex_char_def re_end_def)
  have l: "length (lit ''0x0123456789abcdefABCDEF0123456789abcdefA'') = 41"
    by (simp add: lit_def)
  show ?thesis
    using h m l
      EvmAddressCriterion_raises_iff
        [of "lit ''in''" "[lit ''0x0123456789abcdefABCDEF0123456789abcdefA'']"]
      EvmAddressCriterion_raises_iff
        [of "lit ''in''" "[lit ''0x0123456789abcdefABCDEF0123456789abcdefAB'']"]
    by simp
qed

text \<open>
  C5: constructing an \<open>EthValueCriterion\<close> raises a validation error when the value
  contains a character that is not a digit (as \<open>str.isdigit\<close> understands digits), for
  example \<open>12a\<close>; with an operator among the literals of the class it succeeds for every
  non-empty value made of digits only, for example \<open>0\<close>.
\<close>

theorem EthValueCriterion_digits_only:
  "((\<exists>c \<in> set v. \<not> isdigit_char c) \<longrightarrow> new_EthValueCriterion v operator = Inl ValidationError)
   \<and> new_EthValueCriterion (lit ''12a'') operator = Inl ValidationError
   \<and> (literal [''>'', ''<'', ''>='', ''<='', ''=='', ''!=''] operator \<longrightarrow>
        (v \<noteq> [] \<and> (\<forall>c \<in> set v. isdigit_char c) \<longrightarrow>
           new_EthValueCriterion v operator = Inr (EthValueCriterion v operator))
        \<and> new_EthValueCriterion (lit ''0'') operator = Inr (EthValueCriterion (lit ''0'') operator))"
proof -
  have a: "\<not> isdigit (lit ''12a'')"
    by (simp add: isdigit_def lit_def isdigit_char_def isdigit_ranges_def)
  have b: "isdigit (lit ''0'')"
    by (simp add: isdigit_def lit_def isdigit_char_def isdigit_ranges_def)
  show ?thesis
    using a b
    by (auto simp: new_EthValueCriterion_def ok_def validate_eth_value_def isdigit_def
        list_all_iff)
qed

theorem EthValueCriterion_digits_only_witness:
  "new_EthValueCriterion (lit ''1a'') (lit ''=='') = Inl ValidationError
   \<and> new_EthValueCriterion (lit ''42'') (lit ''=='') = Inr (EthValueCriterion (lit ''42'') (lit ''==''))"
proof -
  have h: "literal [''>'', ''<'', ''>='', ''<='', ''=='', ''!=''] (lit ''=='')"
    by (simp add: literal_def)
  have n: "\<exists>c \<in> set (lit ''1a''). \<not> isdigit_char c"
    by (simp add: lit_def isdigit_char_def isdigit_ranges_def)
  have d: "lit ''42'' \<noteq> [] \<and> (\<forall>c \<in> set (lit ''42''). isdigit_char c)"
    by (simp add: lit_def isdigit_char_def isdigit_ranges_def)
  show ?thesis
    using h n d EthValueCriterion_digits_only [of "lit ''1a''" "lit ''==''"]
      EthValueCriterion_digits_only [of "lit ''42''" "lit ''==''"]
    by blast
qed

text \<open>
  C6: constructing an \<open>EvmNetworkCriterion\<close> raises a validation error when a network is
  neither \<open>base\<close> nor \<open>base-sepolia\<close>, for example \<open>mainnet\<close>; with networks drawn
  only from these two (and an operator among the literals of the class) it succeeds.
\<close>

theorem EvmNetworkCriterion_networks:
  "((\<exists>n \<in> set networks. n \<notin> {lit ''base'', lit ''base-sepolia''}) \<longrightarrow>
       new_EvmNetworkCriterion networks operator = Inl ValidationError)
   \<and> new_EvmNetworkCriterion [lit ''mainnet''] operator = Inl ValidationError
   \<and> (literal [''in'', ''not in''] operator \<and> set networks \<subseteq> {lit ''base'', lit ''base-sepolia''} \<longrightarrow>
        new_EvmNetworkCriterion networks operator = Inr (EvmNetworkCriterion networks operator))"
  by (auto simp: new_EvmNetworkCriterion_def literal_def list_all_iff)

theorem EvmNetworkCriterion_networks_witness:
  "new_EvmNetworkCriterion [lit ''base'', lit ''mainnet''] (lit ''in'') = Inl ValidationError
   \<and> new_EvmNetworkCriterion [lit ''base'', lit ''base-sepolia''] (lit ''not in'')
       = Inr (EvmNetworkCriterion [lit ''base'', lit ''base-sepolia''] (lit ''not in''))"
proof -
  have h: "literal [''in'', ''not in''] (lit ''not in'')"
    by (simp add: literal_def)
  have bad: "\<exists>n \<in> set [lit ''base'', lit ''mainnet'']. n \<notin> {lit ''base'', lit ''base-sepolia''}"
    by simp
  have good: "set [lit ''base'', lit ''base-sepolia''] \<subseteq> {lit ''base'', lit ''base-sepolia''}"
    by simp
  show ?thesis
    using h bad good
      EvmNetworkCriterion_networks [of "[lit ''base'', lit ''mainnet'']" "lit ''in''"]
      EvmNetworkCriterion_networks [of "[lit ''base'', lit ''base-sepolia'']" "lit ''not in''"]
    by blast
qed

text \<open>
  C10: the digits-only check of \<open>EthValueCriterion\<close> and \<open>EvmTypedNumericalCondition\<close>
  is \<open>str.isdigit\<close>: the empty string is rejected, while the Arabic-Indic digits
  U+0661 U+0662 U+0663 and the superscript two U+00B2 are accepted although they are not
  ASCII decimal digits.
\<close>

theorem isdigit_is_unicode_isdigit:
  "validate_eth_value = (\<lambda>v. if isdigit v then Inr v else Inl ValidationError)
   \<and> validate_value = (\<lambda>v. if isdigit v then Inr v else Inl ValidationError)
   \<and> new_EthValueCriterion [] operator = Inl ValidationError
   \<and> new_EvmTypedNumericalCondition [] operator path = Inl ValidationError
   \<and> new_EthValueCriterion [1633, 1634, 1635] (lit ''=='')
       = Inr (EthValueCriterion [1633, 1634, 1635] (lit ''==''))
   \<and> new_EthValueCriterion [178] (lit ''=='') = Inr (EthValueCriterion [178] (lit ''==''))
   \<and> new_EvmTypedNumericalCondition [1633, 1634, 1635] (lit ''=='') path
       = Inr (EvmTypedNumericalCondition [1633, 1634, 1635] (lit ''=='') path)
   \<and> new_EvmTypedNumericalCondition [178] (lit ''=='') path
       = Inr (EvmTypedNumericalCondition [178] (lit ''=='') path)
   \<and> \<not> list_all ascii_digit [1633, 1634, 1635] \<and> \<not> list_all ascii_digit [178]"
proof -
  have a: "isdigit [1633, 1634, 1635]" and b: "isdigit [178]" and c: "\<not> isdigit []"
    by (simp_all add: isdigit_def isdigit_char_def isdigit_ranges_def)
  have v: "validate_eth_value = (\<lambda>v. if isdigit v then Inr v else Inl ValidationError)"
     "validate_value = (\<lambda>v. if isdigit v then Inr v else Inl ValidationError)"
    by (auto simp: validate_eth_value_def validate_value_def fun_eq_iff)
  show ?thesis
    using a b c v
    by (simp add: new_EthValueCriterion_def new_EvmTypedNumericalCondition_def ok_def
        validate_eth_value_def validate_value_def literal_def ascii_digit_def)
qed

section \<open>Properties of the transformers\<close>

subsection \<open>The loops\<close>

lemma request_rules_loop_comprehension:
  "request_rules_loop acc rs =
     (case comprehension request_rule rs of Inl e \<Rightarrow> Inl e | Inr ws \<Rightarrow> Inr (acc @ ws))"
proof (induction rs arbitrary: acc)
  case Nil
  show ?case by simp
next
  case (Cons r rs)
  show ?case
    by (simp add: Cons.IH [of "acc @ _"] split: sum.splits)
qed

lemma map_request_rules_comprehension:
  "map_request_rules_to_openapi_format rs = comprehension request_rule rs"
  by (simp add: map_request_rules_to_openapi_format_def request_rules_loop_comprehension
      split: sum.splits)

lemma response_rules_loop_comprehension:
  "response_rules_loop acc ws =
     (case comprehension response_rule ws of Inl e \<Rightarrow> Inl e | Inr rs \<Rightarrow> Inr (acc @ rs))"
proof (induction ws arbitrary: acc)
  case Nil
  show ?case by simp
next
  case (Cons w ws)
  show ?case
    by (simp add: Cons.IH [of "acc @ _"] split: sum.splits)
qed

lemma map_openapi_rules_comprehension:
  "map_openapi_rules_to_response_format ws = comprehension response_rule ws"
  by (simp add: map_openapi_rules_to_response_format_def response_rules_loop_comprehension
      split: sum.splits)

lemma comprehension_append:
  "comprehension f (xs @ ys) =
     (case comprehension f xs of
        Inl e \<Rightarrow> Inl e
      | Inr l \<Rightarrow> (case comprehension f ys of Inl e \<Rightarrow> Inl e | Inr l' \<Rightarrow> Inr (l @ l')))"
  by (induction xs) (simp_all split: sum.splits)

lemma comprehension_Inr_iff:
  "comprehension f xs = Inr ys \<longleftrightarrow> map f xs = map Inr ys"
proof (induction xs arbitrary: ys)
  case Nil
  show ?case by auto
next
  case (Cons x xs)
  show ?case
  proof (cases "f x")
    case (Inl e)
    then show ?thesis by (cases ys) auto
  next
    case (Inr y)
    show ?thesis
    proof (cases "comprehension f xs")
      case (Inl e)
      have "map f xs \<noteq> map Inr l" for l
        using Cons.IH [of l] Inl by simp
      with Inl Inr show ?thesis by (cases ys) auto
    next
      case r: (Inr l)
      then have "map f xs = map Inr l" by (simp add: Cons.IH)
      with Inr r show ?thesis by (cases ys) (auto simp: inj_map_eq_map)
    qed
  qed
qed

lemma comprehension_fails:
  assumes "x \<in> set xs" and "f x = Inl e"
  shows "\<exists>e'. comprehension f xs = Inl e'"
proof (cases "comprehension f xs")
  case (Inl e')
  then show ?thesis by blast
next
  case (Inr ys)
  then have "map f xs = map Inr ys" by (simp add: comprehension_Inr_iff)
  then have "f x \<in> set (map Inr ys)" using assms(1) by (metis image_eqI set_map)
  with assms(2) show ?thesis by auto
qed

lemma comprehension_first_failure:
  assumes "comprehension f pre = Inr ys" and "f x = Inl e"
  shows "comprehension f (pre @ x # post) = Inl e"
  using assms by (simp add: comprehension_append)

lemma comprehension_Inl_split:
  assumes "comprehension f xs = Inl e"
  shows "\<exists>pre x post ys. xs = pre @ x # post \<and> comprehension f pre = Inr ys \<and> f x = Inl e"
  using assms
proof (induction xs)
  case Nil
  then show ?case by simp
next
  case (Cons a xs)
  show ?case
  proof (cases "f a")
    case (Inl e')
    with Cons.prems have "e' = e" by simp
    with Inl have "a # xs = [] @ a # xs \<and> comprehension f [] = Inr [] \<and> f a = Inl e" by simp
    then show ?thesis by blast
  next
    case (Inr y)
    with Cons.prems have "comprehension f xs = Inl e" by (simp split: sum.splits)
    from Cons.IH [OF this] obtain pre x post ys where
      "xs = pre @ x # post" "comprehension f pre = Inr ys" "f x = Inl e" by blast
    with Inr have "a # xs = (a # pre) @ x # post \<and> comprehension f (a # pre) = Inr (y # ys) \<and> f x = Inl e"
      by simp
    then show ?thesis by blast
  qed
qed

subsection \<open>Dispatch on the operation\<close>

lemma request_criteria_loop_comprehension:
  "request_criteria_loop bs op acc cs =
     (case comprehension (request_criterion bs op) cs of
        Inl e \<Rightarrow> Inl e | Inr ws \<Rightarrow> Inr (acc @ ws))"
proof (induction cs arbitrary: acc)
  case Nil
  show ?case by simp
next
  case (Cons c cs)
  show ?case
    by (simp add: Cons.IH [of "acc @ _"] split: sum.splits)
qed

lemma response_criteria_loop_comprehension:
  "response_criteria_loop bs acc cs =
     (case comprehension (response_criterion bs) cs of
        Inl e \<Rightarrow> Inl e | Inr ws \<Rightarrow> Inr (acc @ ws))"
proof (induction cs arbitrary: acc)
  case Nil
  show ?case by simp
next
  case (Cons c cs)
  show ?case
    by (simp add: Cons.IH [of "acc @ _"] split: sum.splits)
qed

lemma supported_operation_iff:
  "map_of openapi_criterion_mapping op = None \<longleftrightarrow> op \<notin> set supported_operations"
  by (simp add: openapi_criterion_mapping_def supported_operations_def)

lemma openapi_rule_mapping_keys:
  "map_of openapi_rule_mapping op = None \<longleftrightarrow> op \<notin> set supported_operations"
  by (simp add: openapi_rule_mapping_def supported_operations_def)

lemma builder_error:
  assumes "map_of openapi_criterion_mapping op = Some bs" and "map_of bs t = Some b"
    and "b c = Inl e"
  shows "e = AttributeError"
proof -
  have b: "b \<in> {eth_value_builder SendEvmTransactionCriteriaInner,
                evm_address_builder SendEvmTransactionCriteriaInner,
                evm_network_builder SendEvmTransactionCriteriaInner,
                evm_data_builder SendEvmTransactionCriteriaInner,
                eth_value_builder SignEvmTransactionCriteriaInner,
                evm_address_builder SignEvmTransactionCriteriaInner,
                evm_data_builder SignEvmTransactionCriteriaInner,
                evm_message_builder, evm_typed_data_field_builder,
                evm_typed_data_verifying_contract_builder, sol_address_builder}"
    using assms(1,2)
    by (auto simp: openapi_criterion_mapping_def split: if_splits)
  have "eth_value_builder i c = Inl e \<Longrightarrow> e = AttributeError" for i
    by (cases c) auto
  moreover have "evm_address_builder i c = Inl e \<Longrightarrow> e = AttributeError" for i
    by (cases c) auto
  moreover have "evm_network_builder i c = Inl e \<Longrightarrow> e = AttributeError" for i
    by (cases c) auto
  moreover have "evm_data_builder i c = Inl e \<Longrightarrow> e = AttributeError" for i
    by (cases c) auto
  moreover have "evm_message_builder c = Inl e \<Longrightarrow> e = AttributeError"
    by (cases c) auto
  moreover have "evm_typed_data_field_builder c = Inl e \<Longrightarrow> e = AttributeError"
    by (cases c) auto
  moreover have "evm_typed_data_verifying_contract_builder c = Inl e \<Longrightarrow> e = AttributeError"
    by (cases c) auto
  moreover have "sol_address_builder c = Inl e \<Longrightarrow> e = AttributeError"
    by (cases c) auto
  ultimately show ?thesis using b assms(3) by blast
qed

lemma request_criterion_error:
  assumes "map_of openapi_criterion_mapping op = Some bs"
    and "request_criterion bs op' c = Inl e"
  shows "e = AttributeError \<or>
         (e = UnknownCriterionType (criterion_type c) (Some op') \<and>
          map_of bs (criterion_type c) = None)"
  using assms builder_error [OF assms(1)]
  by (auto simp: request_criterion_def split: option.splits)

lemma request_rule_error:
  assumes "request_rule r = Inl e"
  shows "(e = UnknownOperation (operation r) \<and> operation r \<notin> set supported_operations) \<or>
         (operation r \<in> set supported_operations \<and>
          (e = AttributeError \<or>
           (\<exists>bs cs c. map_of openapi_criterion_mapping (operation r) = Some bs \<and>
              criteria r = Some cs \<and> c \<in> set cs \<and> map_of bs (criterion_type c) = None \<and>
              e = UnknownCriterionType (criterion_type c) (Some (operation r)))))"
proof (cases "map_of openapi_criterion_mapping (operation r)")
  case None
  with assms show ?thesis
    by (simp add: request_rule_def supported_operation_iff)
next
  case (Some bs)
  then have sup: "operation r \<in> set supported_operations"
    using supported_operation_iff [of "operation r"] by auto
  then obtain cls where cls: "map_of openapi_rule_mapping (operation r) = Some cls"
    using openapi_rule_mapping_keys [of "operation r"] by auto
  from assms Some cls obtain cs where cs: "criteria r = Some cs"
    and loop: "comprehension (request_criterion bs (operation r)) cs = Inl e"
    by (auto simp: request_rule_def request_criteria_loop_comprehension
        split: option.splits sum.splits)
  from comprehension_Inl_split [OF loop] obtain pre c post where
    "cs = pre @ c # post" "request_criterion bs (operation r) c = Inl e" by blast
  with request_criterion_error [OF Some, of "operation r" c e] cs Some sup
  show ?thesis by auto
qed

lemma request_rule_unknown_operation:
  assumes "operation r \<notin> set supported_operations"
  shows "request_rule r = Inl (UnknownOperation (operation r))"
  using assms supported_operation_iff [of "operation r"]
  by (simp add: request_rule_def)

text \<open>
  C2: a rule whose operation is not one of the six supported operations makes
  \<open>map_request_rules_to_openapi_format\<close> fail with \<open>UnknownOperation\<close>: alone, as the
  first failing rule of a list, and (with some exception) anywhere in a list; so does the
  operation \<open>unknownOp\<close>. When every rule of the list has a supported operation, the
  call never fails with \<open>UnknownOperation\<close>.
\<close>

theorem unknown_operation:
  "(operation r \<notin> set supported_operations \<longrightarrow>
      map_request_rules_to_openapi_format [r] = Inl (UnknownOperation (operation r)))
   \<and> (operation r \<notin> set supported_operations
        \<and> map_request_rules_to_openapi_format pre = Inr ws \<longrightarrow>
      map_request_rules_to_openapi_format (pre @ r # post)
        = Inl (UnknownOperation (operation r)))
   \<and> (operation r \<notin> set supported_operations \<and> r \<in> set rs \<longrightarrow>
      (\<exists>e. map_request_rules_to_openapi_format rs = Inl e))
   \<and> map_request_rules_to_openapi_format
        [\<lparr>action = a, operation = lit ''unknownOp'', criteria = cs\<rparr>]
        = Inl (UnknownOperation (lit ''unknownOp''))
   \<and> ((\<forall>r' \<in> set rs. operation r' \<in> set supported_operations) \<longrightarrow>
        (\<forall>op. map_request_rules_to_openapi_format rs \<noteq> Inl (UnknownOperation op)))"
proof -
  have one: "map_request_rules_to_openapi_format [r] = Inl (UnknownOperation (operation r))"
    if "operation r \<notin> set supported_operations"
    using request_rule_unknown_operation [OF that]
    by (simp add: map_request_rules_comprehension)
  have first: "map_request_rules_to_openapi_format (pre @ r # post)
        = Inl (UnknownOperation (operation r))"
    if "operation r \<notin> set supported_operations"
      and "map_request_rules_to_openapi_format pre = Inr ws"
    using that request_rule_unknown_operation [of r]
    by (simp add: map_request_rules_comprehension comprehension_first_failure)
  have some: "\<exists>e. map_request_rules_to_openapi_format rs = Inl e"
    if "operation r \<notin> set supported_operations" and "r \<in> set rs"
    using comprehension_fails [of r rs request_rule] that request_rule_unknown_operation [of r]
    by (simp add: map_request_rules_comprehension)
  have ex: "map_request_rules_to_openapi_format
        [\<lparr>action = a, operation = lit ''unknownOp'', criteria = cs\<rparr>]
        = Inl (UnknownOperation (lit ''unknownOp''))"
    by (simp add: map_request_rules_comprehension request_rule_def openapi_criterion_mapping_def)
  have none: "map_request_rules_to_openapi_format rs \<noteq> Inl (UnknownOperation op)"
    if all: "\<forall>r' \<in> set rs. operation r' \<in> set supported_operations" for op
  proof
    assume "map_request_rules_to_openapi_format rs = Inl (UnknownOperation op)"
    then have "comprehension request_rule rs = Inl (UnknownOperation op)"
      by (simp add: map_request_rules_comprehension)
    from comprehension_Inl_split [OF this] obtain p x q where
      "rs = p @ x # q" "request_rule x = Inl (UnknownOperation op)" by blast
    with request_rule_error [of x "UnknownOperation op"] all show False by auto
  qed
  from one first some ex none show ?thesis by blast
qed

theorem unknown_operation_witness:
  "map_request_rules_to_openapi_format
     [\<lparr>action = lit ''accept'', operation = lit ''signEvmHash'', criteria = None\<rparr>,
      \<lparr>action = lit ''accept'', operation = lit ''transfer'', criteria = None\<rparr>]
     = Inl (UnknownOperation (lit ''transfer''))
   \<and> (\<forall>op. map_request_rules_to_openapi_format
        [\<lparr>action = lit ''accept'', operation = lit ''signEvmHash'', criteria = None\<rparr>]
       \<noteq> Inl (UnknownOperation op))"
proof -
  let ?h = "\<lparr>action = lit ''accept'', operation = lit ''signEvmHash'', criteria = None\<rparr>"
  let ?t = "\<lparr>action = lit ''accept'', operation = lit ''transfer'', criteria = None\<rparr>"
  have a: "operation ?t \<notin> set supported_operations"
    by (simp add: supported_operations_def)
  have b: "\<forall>r' \<in> set [?h]. operation r' \<in> set supported_operations"
    by (simp add: supported_operations_def)
  have c: "map_request_rules_to_openapi_format [?h]
            = Inr [Rule \<lparr>o_class = SignEvmHashRule, o_action = lit ''accept'',
                         o_operation = lit ''signEvmHash'', o_criteria = None\<rparr>]"
    by (simp add: map_request_rules_to_openapi_format_def request_rule_def
        openapi_criterion_mapping_def openapi_rule_mapping_def)
  show ?thesis
    using a b c unknown_operation [of ?t "[?h]" _ "[]" "[?h]"]
    by simp
qed

subsection \<open>Dispatch on the criterion type\<close>

lemma legality_table_keys:
  "map (\<lambda>(op, builders). (op, map fst builders)) openapi_criterion_mapping = legality_table"
  by (simp add: openapi_criterion_mapping_def legality_table_def)

lemma legality_table_lookup:
  assumes "map_of legality_table op = Some allowed"
  shows "\<exists>bs. map_of openapi_criterion_mapping op = Some bs \<and> map fst bs = allowed"
proof -
  have "map_of legality_table op = map_option (map fst) (map_of openapi_criterion_mapping op)"
    unfolding legality_table_keys [symmetric] by (simp add: map_of_map)
  with assms show ?thesis by auto
qed

lemma legal_tag_iff:
  "map_of bs t = None \<longleftrightarrow> t \<notin> set (map fst bs)"
  by (simp add: map_of_eq_None_iff)

lemma builder_succeeds:
  assumes "map_of openapi_criterion_mapping op = Some bs"
    and "map_of bs (criterion_type c) = Some b"
    and "tag_of_its_class c"
  shows "\<exists>w. b c = Inr w"
  using assms
  by (cases c) (auto simp: openapi_criterion_mapping_def criterion_tags_def split: if_splits)

lemma request_criterion_legal:
  assumes "map_of openapi_criterion_mapping op = Some bs"
    and "criterion_type c \<in> set (map fst bs)" and "tag_of_its_class c"
  shows "\<exists>w. request_criterion bs op' c = Inr w"
proof -
  from assms(2) obtain b where b: "map_of bs (criterion_type c) = Some b"
    using legal_tag_iff [of bs "criterion_type c"] by auto
  from builder_succeeds [OF assms(1) b assms(3)] b show ?thesis
    by (simp add: request_criterion_def)
qed

lemma request_criterion_illegal:
  assumes "criterion_type c \<notin> set (map fst bs)"
  shows "request_criterion bs op c = Inl (UnknownCriterionType (criterion_type c) (Some op))"
  using assms legal_tag_iff [of bs "criterion_type c"]
  by (simp add: request_criterion_def)

lemma comprehension_all_ok:
  assumes "\<forall>x \<in> set xs. \<exists>y. f x = Inr y"
  shows "\<exists>ys. comprehension f xs = Inr ys"
  using assms by (induction xs) auto

lemma request_rule_criteria:
  assumes "map_of openapi_criterion_mapping (operation r) = Some bs"
    and "criteria r = Some cs"
    and "comprehension (request_criterion bs (operation r)) cs = Inl e"
  shows "request_rule r = Inl e"
proof -
  from assms(1) obtain cls where "map_of openapi_rule_mapping (operation r) = Some cls"
    using openapi_rule_mapping_keys [of "operation r"]
      supported_operation_iff [of "operation r"] by auto
  with assms show ?thesis
    by (simp add: request_rule_def request_criteria_loop_comprehension)
qed

lemma first_illegal_criterion:
  assumes tab: "map_of legality_table (operation r) = Some allowed"
    and cs: "criteria r = Some (pre @ c # post)"
    and pre: "\<forall>p \<in> set pre. tag_of_its_class p \<and> criterion_type p \<in> set allowed"
    and c: "criterion_type c \<notin> set allowed"
  shows "request_rule r = Inl (UnknownCriterionType (criterion_type c) (Some (operation r)))"
proof -
  from legality_table_lookup [OF tab] obtain bs where
    bs: "map_of openapi_criterion_mapping (operation r) = Some bs" and
    keys: "map fst bs = allowed" by blast
  have "\<forall>p \<in> set pre. \<exists>w. request_criterion bs (operation r) p = Inr w"
    using pre keys request_criterion_legal [OF bs] by auto
  then obtain ws where "comprehension (request_criterion bs (operation r)) pre = Inr ws"
    using comprehension_all_ok by blast
  moreover have "request_criterion bs (operation r) c
      = Inl (UnknownCriterionType (criterion_type c) (Some (operation r)))"
    using c keys request_criterion_illegal [of c bs] by auto
  ultimately have "comprehension (request_criterion bs (operation r)) (pre @ c # post)
      = Inl (UnknownCriterionType (criterion_type c) (Some (operation r)))"
    by (rule comprehension_first_failure)
  from request_rule_criteria [OF bs cs this] show ?thesis .
qed

text \<open>
  C3: the keys of \<open>openapi_criterion_mapping\<close> are the legality table. When the first
  criterion of a rule whose type is not allowed for the rule's operation comes after
  criteria of allowed types only, \<open>map_request_rules_to_openapi_format\<close> fails with
  \<open>UnknownCriterionType\<close> for that type; so a rule that contains a criterion of a type
  that is not allowed fails with \<open>UnknownCriterionType\<close> (every criterion being an
  instance of the class of its tag), for example a \<open>signEvmTransaction\<close> rule with an
  \<open>evmNetwork\<close> criterion. A rule whose criteria all have allowed types never fails with
  \<open>UnknownCriterionType\<close>.
\<close>

theorem unknown_criterion_type:
  "map (\<lambda>(op, builders). (op, map fst builders)) openapi_criterion_mapping = legality_table
   \<and> (map_of legality_table (operation r) = Some allowed
        \<and> criteria r = Some (pre @ c # post)
        \<and> (\<forall>p \<in> set pre. tag_of_its_class p \<and> criterion_type p \<in> set allowed)
        \<and> criterion_type c \<notin> set allowed \<longrightarrow>
      map_request_rules_to_openapi_format [r]
        = Inl (UnknownCriterionType (criterion_type c) (Some (operation r))))
   \<and> (map_of legality_table (operation r) = Some allowed
        \<and> criteria r = Some cs
        \<and> (\<forall>x \<in> set cs. tag_of_its_class x)
        \<and> (\<exists>x \<in> set cs. criterion_type x \<notin> set allowed) \<longrightarrow>
      (\<exists>x \<in> set cs. criterion_type x \<notin> set allowed \<and>
         map_request_rules_to_openapi_format [r]
           = Inl (UnknownCriterionType (criterion_type x) (Some (operation r)))))
   \<and> map_request_rules_to_openapi_format
        [\<lparr>action = a, operation = lit ''signEvmTransaction'',
          criteria = Some [EvmNetworkCriterion networks operator]\<rparr>]
        = Inl (UnknownCriterionType (lit ''evmNetwork'') (Some (lit ''signEvmTransaction'')))
   \<and> (map_of legality_table (operation r) = Some allowed
        \<and> criteria r = Some cs
        \<and> (\<forall>x \<in> set cs. criterion_type x \<in> set allowed) \<longrightarrow>
      (\<forall>t op. map_request_rules_to_openapi_format [r] \<noteq> Inl (UnknownCriterionType t op)))"
proof -
  have single: "map_request_rules_to_openapi_format [x] = Inl e \<longleftrightarrow> request_rule x = Inl e"
    for x e
    by (simp add: map_request_rules_comprehension split: sum.splits)
  have first: "map_request_rules_to_openapi_format [r]
        = Inl (UnknownCriterionType (criterion_type c) (Some (operation r)))"
    if "map_of legality_table (operation r) = Some allowed"
      "criteria r = Some (pre @ c # post)"
      "\<forall>p \<in> set pre. tag_of_its_class p \<and> criterion_type p \<in> set allowed"
      "criterion_type c \<notin> set allowed"
    using first_illegal_criterion [OF that] by (simp add: single)
  have some: "\<exists>x \<in> set cs. criterion_type x \<notin> set allowed \<and>
         map_request_rules_to_openapi_format [r]
           = Inl (UnknownCriterionType (criterion_type x) (Some (operation r)))"
    if tab: "map_of legality_table (operation r) = Some allowed"
      and cs: "criteria r = Some cs"
      and cls: "\<forall>x \<in> set cs. tag_of_its_class x"
      and ex: "\<exists>x \<in> set cs. criterion_type x \<notin> set allowed"
  proof -
    from split_list_first_prop [OF ex] obtain p x q where
      split: "cs = p @ x # q" and x: "criterion_type x \<notin> set allowed"
      and p: "\<forall>y \<in> set p. \<not> criterion_type y \<notin> set allowed" by blast
    have "\<forall>y \<in> set p. tag_of_its_class y \<and> criterion_type y \<in> set allowed"
      using p cls split by auto
    from first_illegal_criterion [OF tab _ this x, of q] cs split
    have "request_rule r = Inl (UnknownCriterionType (criterion_type x) (Some (operation r)))"
      by simp
    with x split show ?thesis by (auto simp: single)
  qed
  have ex: "map_request_rules_to_openapi_format
        [\<lparr>action = a, operation = lit ''signEvmTransaction'',
          criteria = Some [EvmNetworkCriterion networks operator]\<rparr>]
        = Inl (UnknownCriterionType (lit ''evmNetwork'') (Some (lit ''signEvmTransaction'')))"
    by (simp add: single request_rule_def openapi_criterion_mapping_def openapi_rule_mapping_def
        request_criterion_def)
  have none: "map_request_rules_to_openapi_format [r] \<noteq> Inl (UnknownCriterionType t op)"
    if tab: "map_of legality_table (operation r) = Some allowed"
      and cs: "criteria r = Some cs"
      and all: "\<forall>x \<in> set cs. criterion_type x \<in> set allowed" for t op
  proof
    assume "map_request_rules_to_openapi_format [r] = Inl (UnknownCriterionType t op)"
    then have e: "request_rule r = Inl (UnknownCriterionType t op)" by (simp add: single)
    from legality_table_lookup [OF tab] obtain bs where
      bs: "map_of openapi_criterion_mapping (operation r) = Some bs" and
      keys: "map fst bs = allowed" by blast
    from request_rule_error [OF e] bs cs obtain x where
      "x \<in> set cs" "map_of bs (criterion_type x) = None" by auto
    with all keys legal_tag_iff [of bs "criterion_type x"] show False by auto
  qed
  from legality_table_keys first some ex none show ?thesis by blast
qed


theorem unknown_criterion_type_witness:
  "map_request_rules_to_openapi_format
     [\<lparr>action = lit ''accept'', operation = lit ''signEvmMessage'',
       criteria = Some [EvmMessageCriterion (lit ''^hello''),
                        SolanaAddressCriterion [] (lit ''in'')]\<rparr>]
     = Inl (UnknownCriterionType (lit ''solAddress'') (Some (lit ''signEvmMessage'')))
   \<and> (\<forall>t op. map_request_rules_to_openapi_format
        [\<lparr>action = lit ''accept'', operation = lit ''signEvmMessage'',
          criteria = Some [EvmMessageCriterion (lit ''^hello'')]\<rparr>]
       \<noteq> Inl (UnknownCriterionType t op))"
proof -
  let ?m = "EvmMessageCriterion (lit ''^hello'')"
  let ?s = "SolanaAddressCriterion [] (lit ''in'')"
  let ?r1 = "\<lparr>action = lit ''accept'', operation = lit ''signEvmMessage'',
               criteria = Some [?m, ?s]\<rparr>"
  let ?r2 = "\<lparr>action = lit ''accept'', operation = lit ''signEvmMessage'',
               criteria = Some [?m]\<rparr>"
  have tab1: "map_of legality_table (operation ?r1) = Some [lit ''evmMessage'']"
    and tab2: "map_of legality_table (operation ?r2) = Some [lit ''evmMessage'']"
    by (simp_all add: legality_table_def)
  have cs1: "criteria ?r1 = Some ([?m] @ ?s # [])" and cs2: "criteria ?r2 = Some [?m]"
    by simp_all
  have pre: "\<forall>p \<in> set [?m]. tag_of_its_class p \<and> criterion_type p \<in> set [lit ''evmMessage'']"
    by simp
  have bad: "criterion_type ?s \<notin> set [lit ''evmMessage'']"
    by simp
  have good: "\<forall>x \<in> set [?m]. criterion_type x \<in> set [lit ''evmMessage'']"
    by simp
  have ty: "criterion_type ?s = lit ''solAddress''"
    by simp
  show ?thesis
    using tab1 tab2 cs1 cs2 pre bad good ty
      unknown_criterion_type [of ?r1 "[lit ''evmMessage'']" "[?m]" ?s "[]"]
      unknown_criterion_type [of ?r2 "[lit ''evmMessage'']" _ _ _ "[?m]"]
    by simp
qed

lemma single_request_rule:
  "map_request_rules_to_openapi_format [r] =
     (case request_rule r of Inl e \<Rightarrow> Inl e | Inr w \<Rightarrow> Inr [w])"
  by (simp add: map_request_rules_comprehension split: sum.splits)

lemma single_response_rule:
  "map_openapi_rules_to_response_format [w] =
     (case response_rule w of Inl e \<Rightarrow> Inl e | Inr r \<Rightarrow> Inr [r])"
  by (simp add: map_openapi_rules_comprehension split: sum.splits)

lemma sign_evm_hash_request_rule:
  assumes "operation r = lit ''signEvmHash''" and "criteria r = None"
  shows "request_rule r =
           Inr (Rule \<lparr>o_class = SignEvmHashRule, o_action = action r,
                      o_operation = lit ''signEvmHash'', o_criteria = None\<rparr>)"
  using assms
  by (simp add: request_rule_def openapi_criterion_mapping_def openapi_rule_mapping_def)

lemma comprehension_nth:
  assumes "comprehension f xs = Inr ys" and "i < length xs"
  shows "f (xs ! i) = Inr (ys ! i)"
proof -
  from assms(1) have m: "map f xs = map Inr ys" by (simp add: comprehension_Inr_iff)
  then have "length xs = length ys" by (metis length_map)
  with assms(2) m show ?thesis by (metis nth_map)
qed

lemma comprehension_length:
  assumes "comprehension f xs = Inr ys"
  shows "length ys = length xs"
  using assms by (metis comprehension_Inr_iff length_map)

lemma valid_sign_evm_hash_rule:
  assumes "valid_rule r" and "operation r = lit ''signEvmHash''"
  shows "criteria r = None"
proof -
  from assms have "new_SignEvmHashRule (action r) (criteria r) = Inr r"
    by (simp add: valid_rule_def response_rule_mapping_def)
  then have "r = \<lparr>action = action r, operation = lit ''signEvmHash'', criteria = None\<rparr>"
    by (simp add: new_SignEvmHashRule_def split: if_splits)
  then have "criteria r = criteria \<lparr>action = action r, operation = lit ''signEvmHash'', criteria = None\<rparr>"
    by (rule arg_cong)
  then show ?thesis by simp
qed

text \<open>
  C7: a valid \<open>signEvmHash\<close> rule has no field \<open>criteria\<close>, and for every
  \<open>signEvmHash\<close> rule without criteria \<open>map_request_rules_to_openapi_format\<close> emits a
  wire rule of class \<open>SignEvmHashRule\<close> with the action and the operation and no
  criteria, alone and at its position in any list that is transformed.
\<close>

theorem sign_evm_hash_bare_rule:
  "(valid_rule r \<and> operation r = lit ''signEvmHash'' \<longrightarrow> criteria r = None)
   \<and> (operation r = lit ''signEvmHash'' \<and> criteria r = None \<longrightarrow>
        map_request_rules_to_openapi_format [r]
          = Inr [Rule \<lparr>o_class = SignEvmHashRule, o_action = action r,
                       o_operation = lit ''signEvmHash'', o_criteria = None\<rparr>])
   \<and> (map_request_rules_to_openapi_format rs = Inr ws \<and> i < length rs
        \<and> operation (rs ! i) = lit ''signEvmHash'' \<and> criteria (rs ! i) = None \<longrightarrow>
        ws ! i = Rule \<lparr>o_class = SignEvmHashRule, o_action = action (rs ! i),
                       o_operation = lit ''signEvmHash'', o_criteria = None\<rparr>)"
proof -
  have one: "map_request_rules_to_openapi_format [r]
          = Inr [Rule \<lparr>o_class = SignEvmHashRule, o_action = action r,
                       o_operation = lit ''signEvmHash'', o_criteria = None\<rparr>]"
    if "operation r = lit ''signEvmHash''" "criteria r = None"
    using sign_evm_hash_request_rule [OF that] by (simp add: single_request_rule)
  have nth: "ws ! i = Rule \<lparr>o_class = SignEvmHashRule, o_action = action (rs ! i),
                       o_operation = lit ''signEvmHash'', o_criteria = None\<rparr>"
    if "map_request_rules_to_openapi_format rs = Inr ws" "i < length rs"
      "operation (rs ! i) = lit ''signEvmHash''" "criteria (rs ! i) = None"
  proof -
    from that(1) have "comprehension request_rule rs = Inr ws"
      by (simp add: map_request_rules_comprehension)
    from comprehension_nth [OF this that(2)] sign_evm_hash_request_rule [OF that(3,4)]
    show ?thesis by simp
  qed
  from one nth valid_sign_evm_hash_rule [of r] show ?thesis by blast
qed

theorem sign_evm_hash_bare_rule_witness:
  "valid_rule \<lparr>action = lit ''reject'', operation = lit ''signEvmHash'', criteria = None\<rparr>
   \<and> map_request_rules_to_openapi_format
       [\<lparr>action = lit ''reject'', operation = lit ''signEvmHash'', criteria = None\<rparr>]
       = Inr [Rule \<lparr>o_class = SignEvmHashRule, o_action = lit ''reject'',
                    o_operation = lit ''signEvmHash'', o_criteria = None\<rparr>]"
proof -
  let ?r = "\<lparr>action = lit ''reject'', operation = lit ''signEvmHash'', criteria = None\<rparr>"
  have v: "valid_rule ?r"
    by (simp add: valid_rule_def response_rule_mapping_def new_SignEvmHashRule_def Action_def
        literal_def)
  have h: "operation ?r = lit ''signEvmHash'' \<and> criteria ?r = None"
    by simp
  show ?thesis
    using v h sign_evm_hash_bare_rule [of ?r]
    by simp
qed

text \<open>
  C8: both transformers are fail-fast and atomic. If a rule of the list fails on its own,
  the call on the whole list fails, and it fails with the exception of the first failing
  rule whatever follows it; a call that returns a list returns one rule for each input
  rule, none of which fails on its own.
\<close>

theorem fail_fast:
  "(r \<in> set rs \<and> map_request_rules_to_openapi_format [r] = Inl e \<longrightarrow>
      (\<exists>e'. map_request_rules_to_openapi_format rs = Inl e'))
   \<and> (map_request_rules_to_openapi_format pre = Inr ws
        \<and> map_request_rules_to_openapi_format [r] = Inl e \<longrightarrow>
      map_request_rules_to_openapi_format (pre @ r # post) = Inl e)
   \<and> (map_request_rules_to_openapi_format rs = Inr ws \<longrightarrow>
        length ws = length rs \<and>
        (\<forall>x \<in> set rs. \<forall>e'. map_request_rules_to_openapi_format [x] \<noteq> Inl e'))
   \<and> (w \<in> set wl \<and> map_openapi_rules_to_response_format [w] = Inl e \<longrightarrow>
      (\<exists>e'. map_openapi_rules_to_response_format wl = Inl e'))
   \<and> (map_openapi_rules_to_response_format wpre = Inr out
        \<and> map_openapi_rules_to_response_format [w] = Inl e \<longrightarrow>
      map_openapi_rules_to_response_format (wpre @ w # wpost) = Inl e)
   \<and> (map_openapi_rules_to_response_format wl = Inr out \<longrightarrow>
        length out = length wl \<and>
        (\<forall>x \<in> set wl. \<forall>e'. map_openapi_rules_to_response_format [x] \<noteq> Inl e'))"
proof -
  have rq: "map_request_rules_to_openapi_format [x] = Inl e' \<longleftrightarrow> request_rule x = Inl e'"
    for x e'
    by (simp add: single_request_rule split: sum.splits)
  have rs: "map_openapi_rules_to_response_format [x] = Inl e' \<longleftrightarrow> response_rule x = Inl e'"
    for x e'
    by (simp add: single_response_rule split: sum.splits)
  have a: "\<exists>e'. map_request_rules_to_openapi_format rs = Inl e'"
    if "r \<in> set rs" "map_request_rules_to_openapi_format [r] = Inl e"
  proof -
    from that(2) have "request_rule r = Inl e" by (simp only: rq)
    from comprehension_fails [of r rs request_rule e] that(1) this show ?thesis
      by (simp add: map_request_rules_comprehension)
  qed
  have b: "map_request_rules_to_openapi_format (pre @ r # post) = Inl e"
    if "map_request_rules_to_openapi_format pre = Inr ws"
      "map_request_rules_to_openapi_format [r] = Inl e"
  proof -
    from that(2) have "request_rule r = Inl e" by (simp only: rq)
    moreover from that(1) have "comprehension request_rule pre = Inr ws"
      by (simp add: map_request_rules_comprehension)
    ultimately show ?thesis
      by (simp add: map_request_rules_comprehension comprehension_first_failure)
  qed
  have c: "length ws = length rs \<and>
        (\<forall>x \<in> set rs. \<forall>e'. map_request_rules_to_openapi_format [x] \<noteq> Inl e')"
    if "map_request_rules_to_openapi_format rs = Inr ws"
  proof -
    from that have ok: "comprehension request_rule rs = Inr ws"
      by (simp add: map_request_rules_comprehension)
    have "request_rule x \<noteq> Inl e'" if "x \<in> set rs" for x e'
      using comprehension_fails [of x rs request_rule e'] that ok by auto
    with comprehension_length [OF ok] show ?thesis by (simp only: rq) simp
  qed
  have a': "\<exists>e'. map_openapi_rules_to_response_format wl = Inl e'"
    if "w \<in> set wl" "map_openapi_rules_to_response_format [w] = Inl e"
  proof -
    from that(2) have "response_rule w = Inl e" by (simp only: rs)
    from comprehension_fails [of w wl response_rule e] that(1) this show ?thesis
      by (simp add: map_openapi_rules_comprehension)
  qed
  have b': "map_openapi_rules_to_response_format (wpre @ w # wpost) = Inl e"
    if "map_openapi_rules_to_response_format wpre = Inr out"
      "map_openapi_rules_to_response_format [w] = Inl e"
  proof -
    from that(2) have "response_rule w = Inl e" by (simp only: rs)
    moreover from that(1) have "comprehension response_rule wpre = Inr out"
      by (simp add: map_openapi_rules_comprehension)
    ultimately show ?thesis
      by (simp add: map_openapi_rules_comprehension comprehension_first_failure)
  qed
  have c': "length out = length wl \<and>
        (\<forall>x \<in> set wl. \<forall>e'. map_openapi_rules_to_response_format [x] \<noteq> Inl e')"
    if "map_openapi_rules_to_response_format wl = Inr out"
  proof -
    from that have ok: "comprehension response_rule wl = Inr out"
      by (simp add: map_openapi_rules_comprehension)
    have "response_rule x \<noteq> Inl e'" if "x \<in> set wl" for x e'
      using comprehension_fails [of x wl response_rule e'] that ok by auto
    with comprehension_length [OF ok] show ?thesis by (simp only: rs) simp
  qed
  from a b c a' b' c' show ?thesis by blast
qed


theorem fail_fast_witness:
  "map_request_rules_to_openapi_format
     [\<lparr>action = lit ''accept'', operation = lit ''signEvmHash'', criteria = None\<rparr>,
      \<lparr>action = lit ''accept'', operation = lit ''unknownOp'', criteria = None\<rparr>]
     = Inl (UnknownOperation (lit ''unknownOp''))
   \<and> map_openapi_rules_to_response_format
     [Rule \<lparr>o_class = SignEvmHashRule, o_action = lit ''accept'',
            o_operation = lit ''signEvmHash'', o_criteria = None\<rparr>,
      Rule \<lparr>o_class = SignEvmHashRule, o_action = lit ''accept'',
            o_operation = lit ''unknownOp'', o_criteria = None\<rparr>]
     = Inl (UnknownOperation (lit ''unknownOp''))
   \<and> (\<forall>e'. map_request_rules_to_openapi_format
          [\<lparr>action = lit ''accept'', operation = lit ''signEvmHash'', criteria = None\<rparr>]
        \<noteq> Inl e')
   \<and> (\<forall>e'. map_openapi_rules_to_response_format
          [Rule \<lparr>o_class = SignEvmHashRule, o_action = lit ''accept'',
                 o_operation = lit ''signEvmHash'', o_criteria = None\<rparr>]
        \<noteq> Inl e')"
proof -
  let ?h = "\<lparr>action = lit ''accept'', operation = lit ''signEvmHash'', criteria = None\<rparr>"
  let ?u = "\<lparr>action = lit ''accept'', operation = lit ''unknownOp'', criteria = None\<rparr>"
  let ?wh = "Rule \<lparr>o_class = SignEvmHashRule, o_action = lit ''accept'',
                   o_operation = lit ''signEvmHash'', o_criteria = None\<rparr>"
  let ?wu = "Rule \<lparr>o_class = SignEvmHashRule, o_action = lit ''accept'',
                   o_operation = lit ''unknownOp'', o_criteria = None\<rparr>"
  have h: "map_request_rules_to_openapi_format [?h] = Inr [?wh]"
    by (simp add: map_request_rules_to_openapi_format_def request_rule_def
        openapi_criterion_mapping_def openapi_rule_mapping_def)
  have u: "map_request_rules_to_openapi_format [?u] = Inl (UnknownOperation (lit ''unknownOp''))"
    by (simp add: map_request_rules_to_openapi_format_def request_rule_def
        openapi_criterion_mapping_def)
  have wh: "map_openapi_rules_to_response_format [?wh] = Inr [?h]"
    by (simp add: map_openapi_rules_to_response_format_def response_rule_def
        response_criterion_mapping_def response_rule_mapping_def new_SignEvmHashRule_def
        Action_def literal_def)
  have wu: "map_openapi_rules_to_response_format [?wu]
              = Inl (UnknownOperation (lit ''unknownOp''))"
    by (simp add: map_openapi_rules_to_response_format_def response_rule_def
        response_criterion_mapping_def)
  show ?thesis
    using h u wh wu
      fail_fast [of ?u "[?h, ?u]" "UnknownOperation (lit ''unknownOp'')" "[?h]" "[?wh]" "[]"
                    ?wu "[?wh, ?wu]" "[?wh]" "[?h]" "[]"]
      fail_fast [of _ "[?h]" _ _ "[?wh]" _ _ "[?wh]" _ "[?h]"]
    by simp
qed

subsection \<open>Round trip\<close>

lemma comprehension_map_inverse:
  assumes "\<forall>x \<in> set xs. g (f x) = Inr x"
  shows "comprehension g (map f xs) = Inr xs"
  using assms by (induction xs) simp_all

lemma ok_simps [simp]: "ok (Inl e) = False" "ok (Inr x) = True"
  by (simp_all add: ok_def)

lemma param_round_trip:
  assumes "valid_parameter p"
  shows "param_to_response (param_to_openapi p) = Inr p"
  using assms
  by (cases p)
    (auto simp: new_EvmDataParameterCondition_def new_EvmDataParameterConditionList_def
      split: if_splits)

lemma condition_round_trip:
  assumes "valid_condition c" and "params_not_empty c"
  shows "condition_to_response (condition_to_openapi c) = Inr c"
proof (cases c)
  case (EvmDataCondition f ps)
  show ?thesis
  proof (cases ps)
    case None
    with EvmDataCondition show ?thesis by (simp add: new_EvmDataCondition_def)
  next
    case (Some pl)
    with assms EvmDataCondition have ne: "pl \<noteq> []" and v: "\<forall>p \<in> set pl. valid_parameter p"
      by (simp_all add: list_all_iff)
    from v have "comprehension param_to_response (map param_to_openapi pl) = Inr pl"
      by (intro comprehension_map_inverse) (simp add: param_round_trip)
    with ne Some EvmDataCondition show ?thesis by (simp add: new_EvmDataCondition_def)
  qed
qed

lemma typed_condition_round_trip:
  assumes "valid_typed_condition c"
  shows "typed_condition_to_response (typed_condition_to_openapi c) = Inr c"
  using assms
  by (cases c)
    (auto simp: new_EvmTypedAddressCondition_def new_EvmTypedNumericalCondition_def
      new_EvmTypedStringCondition_def split: if_splits)

lemma name_type_dict_round_trip:
  assumes "dom d = {lit ''name'', lit ''type''}"
  shows "name_type_dict (types_value_inner_of_dict d) = Inr d"
proof -
  from assms obtain n t where n: "d (lit ''name'') = Some n" and t: "d (lit ''type'') = Some t"
    by (metis domD insertI1 insertI2)
  have "[lit ''name'' \<mapsto> n, lit ''type'' \<mapsto> t] = d"
  proof
    fix k
    show "[lit ''name'' \<mapsto> n, lit ''type'' \<mapsto> t] k = d k"
    proof (cases "k \<in> dom d")
      case True
      with assms n t show ?thesis by auto
    next
      case False
      then have "d k = None" by (simp add: domIff)
      moreover from False assms have "k \<noteq> lit ''name''" "k \<noteq> lit ''type''" by auto
      ultimately show ?thesis by simp
    qed
  qed
  with n t show ?thesis
    by (simp add: name_type_dict_def types_value_inner_of_dict_def)
qed

lemma types_round_trip:
  assumes "name_type_keys tys"
  shows "types_to_response (types_to_openapi tys) = Inr tys"
proof (cases tys)
  case (SignEvmTypedDataTypes l primaryType)
  have item: "types_item_to_response ((\<lambda>(key, v). (key, map types_value_inner_of_dict v)) kv) = Inr kv"
    if "kv \<in> set l" for kv
  proof -
    from assms SignEvmTypedDataTypes that
    have "\<forall>d \<in> set (snd kv). name_type_dict (types_value_inner_of_dict d) = Inr d"
      by (auto simp: name_type_dict_round_trip)
    then have "comprehension name_type_dict (map types_value_inner_of_dict (snd kv)) = Inr (snd kv)"
      by (rule comprehension_map_inverse)
    then show ?thesis
      by (cases kv) (simp add: types_item_to_response_def)
  qed
  then have "comprehension types_item_to_response
               (map (\<lambda>(key, v). (key, map types_value_inner_of_dict v)) l) = Inr l"
    by (intro comprehension_map_inverse) simp
  with SignEvmTypedDataTypes show ?thesis
    by (simp add: new_SignEvmTypedDataTypes_def)
qed


lemma conditions_round_trip:
  assumes "list_all valid_condition conds" and "list_all params_not_empty conds"
  shows "comprehension condition_to_response (map condition_to_openapi conds) = Inr conds"
  using assms
  by (intro comprehension_map_inverse) (simp add: list_all_iff condition_round_trip)

lemma typed_conditions_round_trip:
  assumes "list_all valid_typed_condition conds"
  shows "comprehension typed_condition_to_response (map typed_condition_to_openapi conds)
           = Inr conds"
  using assms
  by (intro comprehension_map_inverse) (simp add: list_all_iff typed_condition_round_trip)

lemma abi_round_trip: "abi_actual_instance (abi_to_openapi a) = a"
  by (cases a) simp_all

lemma valid_criterion_new:
  "valid_criterion (EthValueCriterion v operator) \<Longrightarrow>
     new_EthValueCriterion v operator = Inr (EthValueCriterion v operator)"
  "valid_criterion (EvmAddressCriterion addresses operator) \<Longrightarrow>
     new_EvmAddressCriterion addresses operator = Inr (EvmAddressCriterion addresses operator)"
  "valid_criterion (EvmNetworkCriterion networks operator) \<Longrightarrow>
     new_EvmNetworkCriterion networks operator = Inr (EvmNetworkCriterion networks operator)"
  "valid_criterion (SignEvmTypedDataVerifyingContractCriterion addresses operator) \<Longrightarrow>
     new_SignEvmTypedDataVerifyingContractCriterion addresses operator
       = Inr (SignEvmTypedDataVerifyingContractCriterion addresses operator)"
  "valid_criterion (SolanaAddressCriterion addresses operator) \<Longrightarrow>
     new_SolanaAddressCriterion addresses operator
       = Inr (SolanaAddressCriterion addresses operator)"
  by (auto simp: new_EthValueCriterion_def new_EvmAddressCriterion_def
      new_EvmNetworkCriterion_def new_SignEvmTypedDataVerifyingContractCriterion_def
      new_SolanaAddressCriterion_def split: if_splits)

lemma response_of_request:
  assumes "valid_criterion c" and "kept_by_transformers c"
    and "i = SendEvmTransactionCriteriaInner \<or> i = SignEvmTransactionCriteriaInner"
  shows "eth_value_builder i c = Inr w \<Longrightarrow> response_eth_value (actual_instance w) = Inr c"
    and "evm_address_builder i c = Inr w \<Longrightarrow> response_evm_address (actual_instance w) = Inr c"
    and "evm_network_builder i c = Inr w \<Longrightarrow> response_evm_network (actual_instance w) = Inr c"
    and "evm_data_builder i c = Inr w \<Longrightarrow> response_evm_data (actual_instance w) = Inr c"
    and "evm_message_builder c = Inr w \<Longrightarrow> response_evm_message (actual_instance w) = Inr c"
    and "evm_typed_data_field_builder c = Inr w \<Longrightarrow>
           response_evm_typed_data_field (actual_instance w) = Inr c"
    and "evm_typed_data_verifying_contract_builder c = Inr w \<Longrightarrow>
           response_evm_typed_data_verifying_contract (actual_instance w) = Inr c"
    and "sol_address_builder c = Inr w \<Longrightarrow> response_sol_address (actual_instance w) = Inr c"
  using assms
  by (cases c;
      auto simp: valid_criterion_new conditions_round_trip typed_conditions_round_trip
        types_round_trip abi_round_trip new_EvmDataCriterion_def new_EvmMessageCriterion_def
        new_SignEvmTypedDataFieldCriterion_def)+


lemma builder_tag:
  "eth_value_builder i c = Inr w \<Longrightarrow> i = SendEvmTransactionCriteriaInner \<or> i = SignEvmTransactionCriteriaInner \<Longrightarrow>
     openapi_criterion_type (actual_instance w) = lit ''ethValue''"
  "evm_address_builder i c = Inr w \<Longrightarrow> i = SendEvmTransactionCriteriaInner \<or> i = SignEvmTransactionCriteriaInner \<Longrightarrow>
     openapi_criterion_type (actual_instance w) = lit ''evmAddress''"
  "evm_network_builder i c = Inr w \<Longrightarrow> i = SendEvmTransactionCriteriaInner \<or> i = SignEvmTransactionCriteriaInner \<Longrightarrow>
     openapi_criterion_type (actual_instance w) = lit ''evmNetwork''"
  "evm_data_builder i c = Inr w \<Longrightarrow> i = SendEvmTransactionCriteriaInner \<or> i = SignEvmTransactionCriteriaInner \<Longrightarrow>
     openapi_criterion_type (actual_instance w) = lit ''evmData''"
  "evm_message_builder c = Inr w \<Longrightarrow>
     openapi_criterion_type (actual_instance w) = lit ''evmMessage''"
  "evm_typed_data_field_builder c = Inr w \<Longrightarrow>
     openapi_criterion_type (actual_instance w) = lit ''evmTypedDataField''"
  "evm_typed_data_verifying_contract_builder c = Inr w \<Longrightarrow>
     openapi_criterion_type (actual_instance w) = lit ''evmTypedDataVerifyingContract''"
  "sol_address_builder c = Inr w \<Longrightarrow>
     openapi_criterion_type (actual_instance w) = lit ''solAddress''"
  by (cases c; auto)+

lemma criterion_round_trip:
  assumes v: "valid_criterion c" and k: "kept_by_transformers c"
    and bs: "map_of openapi_criterion_mapping op = Some bs"
    and ctors: "map_of response_criterion_mapping op = Some ctors"
    and w: "request_criterion bs op' c = Inr w"
  shows "response_criterion ctors w = Inr c"
proof -
  from w obtain b where b: "map_of bs (criterion_type c) = Some b" and bw: "b c = Inr w"
    by (auto simp: request_criterion_def split: option.splits)
  note rt = response_of_request [OF v k, of SendEvmTransactionCriteriaInner, simplified]
    response_of_request [OF v k, of SignEvmTransactionCriteriaInner, simplified]
  from bs ctors b bw show ?thesis
    by (auto simp: openapi_criterion_mapping_def response_criterion_mapping_def
        response_criterion_def builder_tag rt split: if_splits)
qed


lemma comprehension_inverse:
  assumes "comprehension f xs = Inr ys"
    and "\<And>x y. x \<in> set xs \<Longrightarrow> f x = Inr y \<Longrightarrow> g y = Inr x"
  shows "comprehension g ys = Inr xs"
  using assms
proof (induction xs arbitrary: ys)
  case Nil
  then show ?case by simp
next
  case (Cons x xs)
  from Cons.prems(1) obtain y ys' where y: "f x = Inr y"
    and ys': "comprehension f xs = Inr ys'" and ys: "ys = y # ys'"
    by (auto split: sum.splits)
  from Cons.prems(2) [of x y] y have "g y = Inr x" by simp
  moreover have "comprehension g ys' = Inr xs"
    using Cons.IH [OF ys'] Cons.prems(2) by simp
  ultimately show ?case using ys by simp
qed

lemma class_allows_tag:
  "is_send_evm_transaction_criterion c \<Longrightarrow>
     criterion_type c \<in> set (map lit [''ethValue'', ''evmAddress'', ''evmNetwork'', ''evmData''])"
  "is_sign_evm_transaction_criterion c \<Longrightarrow>
     criterion_type c \<in> set (map lit [''ethValue'', ''evmAddress'', ''evmData''])"
  "is_sign_evm_message_criterion c \<Longrightarrow> criterion_type c \<in> set (map lit [''evmMessage''])"
  "is_sign_evm_typed_data_criterion c \<Longrightarrow>
     criterion_type c \<in> set (map lit [''evmTypedDataField'', ''evmTypedDataVerifyingContract''])"
  "is_sign_sol_transaction_criterion c \<Longrightarrow> criterion_type c \<in> set (map lit [''solAddress''])"
  by (cases c; simp)+

lemma new_rule_with_criteria_Inr:
  assumes "new_rule_with_criteria op allowed a cs = Inr r"
  shows "\<exists>cl. cs = Some cl \<and> Action a \<and> list_all allowed cl \<and>
              r = \<lparr>action = a, operation = lit op, criteria = Some cl\<rparr>"
  using assms
  by (auto simp: new_rule_with_criteria_def split: option.splits if_splits)

lemma rule_class_allows:
  assumes cls: "map_of response_rule_mapping op = Some rule_class"
    and r: "rule_class a (Some cs) = Inr r"
    and some: "criteria r \<noteq> None"
    and tab: "map_of legality_table op = Some allowed"
  shows "\<forall>c \<in> set cs. criterion_type c \<in> set allowed"
proof -
  from cls have "op \<in> set supported_operations"
    by (auto simp: response_rule_mapping_def supported_operations_def split: if_splits)
  then consider "op = lit ''sendEvmTransaction''" | "op = lit ''signEvmTransaction''"
    | "op = lit ''signEvmHash''" | "op = lit ''signEvmMessage''"
    | "op = lit ''signEvmTypedData''" | "op = lit ''signSolTransaction''"
    by (auto simp: supported_operations_def)
  then show ?thesis
  proof cases
    case 1
    with cls r tab show ?thesis
      using class_allows_tag(1)
      by (auto simp: response_rule_mapping_def legality_table_def new_SendEvmTransactionRule_def
          list_all_iff dest!: new_rule_with_criteria_Inr)
  next
    case 2
    with cls r tab show ?thesis
      using class_allows_tag(2)
      by (auto simp: response_rule_mapping_def legality_table_def new_SignEvmTransactionRule_def
          list_all_iff dest!: new_rule_with_criteria_Inr)
  next
    case 3
    with cls r have "r = \<lparr>action = a, operation = lit ''signEvmHash'', criteria = None\<rparr>"
      by (auto simp: response_rule_mapping_def new_SignEvmHashRule_def split: if_splits)
    then have "criteria r = None" by simp
    with some show ?thesis by simp
  next
    case 4
    with cls r tab show ?thesis
      using class_allows_tag(3)
      by (auto simp: response_rule_mapping_def legality_table_def new_SignEvmMessageRule_def
          list_all_iff dest!: new_rule_with_criteria_Inr)
  next
    case 5
    with cls r tab show ?thesis
      using class_allows_tag(4)
      by (auto simp: response_rule_mapping_def legality_table_def new_SignEvmTypedDataRule_def
          list_all_iff dest!: new_rule_with_criteria_Inr)
  next
    case 6
    with cls r tab show ?thesis
      using class_allows_tag(5)
      by (auto simp: response_rule_mapping_def legality_table_def
          new_SignSolanaTransactionRule_def list_all_iff dest!: new_rule_with_criteria_Inr)
  qed
qed


lemma valid_criterion_tag: "valid_criterion c \<Longrightarrow> tag_of_its_class c"
  by (cases c) simp_all

lemma response_mapping_keys:
  "map_of response_criterion_mapping op = None \<longleftrightarrow> op \<notin> set supported_operations"
  "map_of response_rule_mapping op = None \<longleftrightarrow> op \<notin> set supported_operations"
  "map_of legality_table op = None \<longleftrightarrow> op \<notin> set supported_operations"
  by (simp_all add: response_criterion_mapping_def response_rule_mapping_def
      legality_table_def supported_operations_def)

lemma rule_round_trip:
  assumes v: "valid_rule r" and k: "kept_rule r"
  shows "\<exists>w. request_rule r = Inr w \<and> response_rule w = Inr r"
proof -
  from v obtain rule_class where
    rc: "map_of response_rule_mapping (operation r) = Some rule_class" and
    mk: "rule_class (action r) (criteria r) = Inr r"
    by (auto simp: valid_rule_def split: option.splits)
  from rc have sup: "operation r \<in> set supported_operations"
    using response_mapping_keys(2) [of "operation r"] by auto
  then obtain bs ctors cls allowed where
    bs: "map_of openapi_criterion_mapping (operation r) = Some bs" and
    ctors: "map_of response_criterion_mapping (operation r) = Some ctors" and
    cls: "map_of openapi_rule_mapping (operation r) = Some cls" and
    tab: "map_of legality_table (operation r) = Some allowed"
    using supported_operation_iff [of "operation r"] openapi_rule_mapping_keys [of "operation r"]
      response_mapping_keys(1,3) [of "operation r"] by auto
  show ?thesis
  proof (cases "criteria r")
    case None
    with bs cls have "request_rule r =
        Inr (Rule \<lparr>o_class = cls, o_action = action r, o_operation = operation r,
                   o_criteria = None\<rparr>)"
      by (simp add: request_rule_def)
    moreover have "response_rule (Rule \<lparr>o_class = cls, o_action = action r,
        o_operation = operation r, o_criteria = None\<rparr>) = Inr r"
      using ctors rc mk None by (simp add: response_rule_def)
    ultimately show ?thesis by simp
  next
    case (Some cs)
    with v k have vc: "\<forall>c \<in> set cs. valid_criterion c"
      and kc: "\<forall>c \<in> set cs. kept_by_transformers c"
      by (simp_all add: valid_rule_def kept_rule_def list_all_iff)
    from legality_table_lookup [OF tab] bs have keys: "map fst bs = allowed" by auto
    have "\<forall>c \<in> set cs. criterion_type c \<in> set allowed"
      using rule_class_allows [OF rc _ _ tab, of "action r" cs r] mk Some by simp
    with vc keys have "\<forall>c \<in> set cs. \<exists>w. request_criterion bs (operation r) c = Inr w"
      using request_criterion_legal [OF bs] valid_criterion_tag by auto
    then obtain ws where ws: "comprehension (request_criterion bs (operation r)) cs = Inr ws"
      using comprehension_all_ok by blast
    have inv: "comprehension (response_criterion ctors) ws = Inr cs"
    proof (rule comprehension_inverse [OF ws])
      fix c w
      assume "c \<in> set cs" and "request_criterion bs (operation r) c = Inr w"
      with vc kc criterion_round_trip [OF _ _ bs ctors]
      show "response_criterion ctors w = Inr c" by blast
    qed
    from bs cls Some ws have "request_rule r =
        Inr (Rule \<lparr>o_class = cls, o_action = action r, o_operation = operation r,
                   o_criteria = Some ws\<rparr>)"
      by (simp add: request_rule_def request_criteria_loop_comprehension)
    moreover have "response_rule (Rule \<lparr>o_class = cls, o_action = action r,
        o_operation = operation r, o_criteria = Some ws\<rparr>) = Inr r"
      using ctors rc mk Some inv
      by (simp add: response_rule_def response_criteria_loop_comprehension)
    ultimately show ?thesis by simp
  qed
qed

lemma rules_round_trip:
  assumes "\<forall>r \<in> set rules. valid_rule r \<and> kept_rule r"
  shows "\<exists>ws. map_request_rules_to_openapi_format rules = Inr ws \<and>
              map_openapi_rules_to_response_format ws = Inr rules"
proof -
  from assms have "\<forall>r \<in> set rules. \<exists>w. request_rule r = Inr w"
    using rule_round_trip by blast
  then obtain ws where ws: "comprehension request_rule rules = Inr ws"
    using comprehension_all_ok by blast
  have "comprehension response_rule ws = Inr rules"
  proof (rule comprehension_inverse [OF ws])
    fix r w
    assume "r \<in> set rules" and "request_rule r = Inr w"
    with assms rule_round_trip [of r] show "response_rule w = Inr r" by auto
  qed
  with ws show ?thesis
    by (simp add: map_request_rules_comprehension map_openapi_rules_comprehension)
qed

lemma hex_address_matches:
  assumes "length hex = 40" and "list_all hex_char hex"
  shows "match_evm_address (lit ''0x'' @ hex)"
  using assms by (simp add: match_evm_address_def re_end_def lit_def)

text \<open>
  C9: a \<open>signEvmTypedData\<close> rule with one \<open>evmTypedDataField\<close> criterion holding an
  \<open>EvmTypedAddressCondition\<close> (one address \<open>0x\<close> and 40 hexadecimal characters,
  operator \<open>in\<close>, path \<open>to\<close>) followed by an \<open>EvmTypedNumericalCondition\<close>
  (value \<open>1000\<close>, operator \<open><\<close>, path \<open>amount\<close>) is transformed to a wire rule
  with the two conditions in the same order, each as the wire variant of its own kind, and
  the wire rule is transformed back to the original rule (the action being \<open>accept\<close> or
  \<open>reject\<close> and the type definitions having the keys \<open>name\<close> and \<open>type\<close>).
\<close>

theorem typed_data_field_scenario:
  "map_request_rules_to_openapi_format
     [\<lparr>action = a, operation = lit ''signEvmTypedData'',
       criteria = Some
         [SignEvmTypedDataFieldCriterion tys
            [EvmTypedAddressCondition [lit ''0x'' @ hex] (lit ''in'') (lit ''to''),
             EvmTypedNumericalCondition (lit ''1000'') (lit ''<'') (lit ''amount'')]]\<rparr>]
     = Inr [Rule \<lparr>o_class = SignEvmTypedDataRule, o_action = a,
                  o_operation = lit ''signEvmTypedData'',
                  o_criteria = Some
                    [SignEvmTypedDataCriteriaInner
                       (OpenAPISignEvmTypedDataFieldCriterion (types_to_openapi tys)
                          [SignEvmTypedDataFieldCriterionConditionsInner
                             (OpenAPIEvmTypedAddressCondition [lit ''0x'' @ hex] (lit ''in'')
                                (lit ''to'')),
                           SignEvmTypedDataFieldCriterionConditionsInner
                             (OpenAPIEvmTypedNumericalCondition (lit ''1000'') (lit ''<'')
                                (lit ''amount''))]
                          (lit ''evmTypedDataField''))]\<rparr>]
   \<and> (Action a \<and> name_type_keys tys \<and> length hex = 40 \<and> list_all hex_char hex \<longrightarrow>
      map_openapi_rules_to_response_format
        [Rule \<lparr>o_class = SignEvmTypedDataRule, o_action = a,
                o_operation = lit ''signEvmTypedData'',
                o_criteria = Some
                  [SignEvmTypedDataCriteriaInner
                     (OpenAPISignEvmTypedDataFieldCriterion (types_to_openapi tys)
                        [SignEvmTypedDataFieldCriterionConditionsInner
                           (OpenAPIEvmTypedAddressCondition [lit ''0x'' @ hex] (lit ''in'')
                              (lit ''to'')),
                         SignEvmTypedDataFieldCriterionConditionsInner
                           (OpenAPIEvmTypedNumericalCondition (lit ''1000'') (lit ''<'')
                              (lit ''amount''))]
                        (lit ''evmTypedDataField''))]\<rparr>]
      = Inr [\<lparr>action = a, operation = lit ''signEvmTypedData'',
              criteria = Some
                [SignEvmTypedDataFieldCriterion tys
                   [EvmTypedAddressCondition [lit ''0x'' @ hex] (lit ''in'') (lit ''to''),
                    EvmTypedNumericalCondition (lit ''1000'') (lit ''<'') (lit ''amount'')]]\<rparr>])"
proof -
  have digits: "isdigit (lit ''1000'')"
    by (simp add: isdigit_def lit_def isdigit_char_def isdigit_ranges_def)
  show ?thesis
  proof (intro conjI impI)
    show "map_request_rules_to_openapi_format
     [\<lparr>action = a, operation = lit ''signEvmTypedData'',
       criteria = Some
         [SignEvmTypedDataFieldCriterion tys
            [EvmTypedAddressCondition [lit ''0x'' @ hex] (lit ''in'') (lit ''to''),
             EvmTypedNumericalCondition (lit ''1000'') (lit ''<'') (lit ''amount'')]]\<rparr>]
     = Inr [Rule \<lparr>o_class = SignEvmTypedDataRule, o_action = a,
                  o_operation = lit ''signEvmTypedData'',
                  o_criteria = Some
                    [SignEvmTypedDataCriteriaInner
                       (OpenAPISignEvmTypedDataFieldCriterion (types_to_openapi tys)
                          [SignEvmTypedDataFieldCriterionConditionsInner
                             (OpenAPIEvmTypedAddressCondition [lit ''0x'' @ hex] (lit ''in'')
                                (lit ''to'')),
                           SignEvmTypedDataFieldCriterionConditionsInner
                             (OpenAPIEvmTypedNumericalCondition (lit ''1000'') (lit ''<'')
                                (lit ''amount''))]
                          (lit ''evmTypedDataField''))]\<rparr>]"
      by (simp add: map_request_rules_to_openapi_format_def request_rule_def
          openapi_criterion_mapping_def openapi_rule_mapping_def request_criterion_def)
  next
    assume h: "Action a \<and> name_type_keys tys \<and> length hex = 40 \<and> list_all hex_char hex"
    then have m: "match_evm_address (lit ''0x'' @ hex)"
      by (simp add: hex_address_matches)
    from h have t: "types_to_response (types_to_openapi tys) = Inr tys"
      by (simp add: types_round_trip)
    from h have a: "Action a" by simp
    show "map_openapi_rules_to_response_format
        [Rule \<lparr>o_class = SignEvmTypedDataRule, o_action = a,
                o_operation = lit ''signEvmTypedData'',
                o_criteria = Some
                  [SignEvmTypedDataCriteriaInner
                     (OpenAPISignEvmTypedDataFieldCriterion (types_to_openapi tys)
                        [SignEvmTypedDataFieldCriterionConditionsInner
                           (OpenAPIEvmTypedAddressCondition [lit ''0x'' @ hex] (lit ''in'')
                              (lit ''to'')),
                         SignEvmTypedDataFieldCriterionConditionsInner
                           (OpenAPIEvmTypedNumericalCondition (lit ''1000'') (lit ''<'')
                              (lit ''amount''))]
                        (lit ''evmTypedDataField''))]\<rparr>]
      = Inr [\<lparr>action = a, operation = lit ''signEvmTypedData'',
              criteria = Some
                [SignEvmTypedDataFieldCriterion tys
                   [EvmTypedAddressCondition [lit ''0x'' @ hex] (lit ''in'') (lit ''to''),
                    EvmTypedNumericalCondition (lit ''1000'') (lit ''<'') (lit ''amount'')]]\<rparr>]"
      using m t a digits
      by (simp add: map_openapi_rules_to_response_format_def response_rule_def
          response_criterion_mapping_def response_rule_mapping_def response_criterion_def
          new_SignEvmTypedDataRule_def new_rule_with_criteria_def
          new_SignEvmTypedDataFieldCriterion_def new_EvmTypedAddressCondition_def
          new_EvmTypedNumericalCondition_def validate_addresses_length_def
          validate_addresses_format_def validate_value_def literal_def)
  qed
qed


theorem typed_data_field_scenario_witness:
  "map_openapi_rules_to_response_format
     [Rule \<lparr>o_class = SignEvmTypedDataRule, o_action = lit ''accept'',
             o_operation = lit ''signEvmTypedData'',
             o_criteria = Some
               [SignEvmTypedDataCriteriaInner
                  (OpenAPISignEvmTypedDataFieldCriterion
                     (SignEvmTypedDataFieldCriterionTypes
                        [(lit ''Transfer'',
                          [\<lparr>item_name = Some (lit ''to''), item_type = Some (lit ''address'')\<rparr>,
                           \<lparr>item_name = Some (lit ''amount''),
                            item_type = Some (lit ''uint256'')\<rparr>])]
                        (lit ''Transfer''))
                     [SignEvmTypedDataFieldCriterionConditionsInner
                        (OpenAPIEvmTypedAddressCondition
                           [lit ''0x0123456789abcdefABCDEF0123456789abcdefAB''] (lit ''in'')
                           (lit ''to'')),
                      SignEvmTypedDataFieldCriterionConditionsInner
                        (OpenAPIEvmTypedNumericalCondition (lit ''1000'') (lit ''<'')
                           (lit ''amount''))]
                     (lit ''evmTypedDataField''))]\<rparr>]
   = Inr [\<lparr>action = lit ''accept'', operation = lit ''signEvmTypedData'',
           criteria = Some
             [SignEvmTypedDataFieldCriterion
                (SignEvmTypedDataTypes
                   [(lit ''Transfer'',
                     [[lit ''name'' \<mapsto> lit ''to'', lit ''type'' \<mapsto> lit ''address''],
                      [lit ''name'' \<mapsto> lit ''amount'', lit ''type'' \<mapsto> lit ''uint256'']])]
                   (lit ''Transfer''))
                [EvmTypedAddressCondition
                   [lit ''0x0123456789abcdefABCDEF0123456789abcdefAB''] (lit ''in'') (lit ''to''),
                 EvmTypedNumericalCondition (lit ''1000'') (lit ''<'') (lit ''amount'')]]\<rparr>]"
proof -
  let ?tys = "SignEvmTypedDataTypes
                   [(lit ''Transfer'',
                     [[lit ''name'' \<mapsto> lit ''to'', lit ''type'' \<mapsto> lit ''address''],
                      [lit ''name'' \<mapsto> lit ''amount'', lit ''type'' \<mapsto> lit ''uint256'']])]
                   (lit ''Transfer'')"
  let ?hex = "lit ''0123456789abcdefABCDEF0123456789abcdefAB''"
  have a: "Action (lit ''accept'')"
    by (simp add: Action_def literal_def)
  have k: "name_type_keys ?tys"
    by auto
  have l: "length ?hex = 40" and x: "list_all hex_char ?hex"
    by (simp_all add: lit_def hex_char_def)
  have c: "lit ''0x'' @ ?hex = lit ''0x0123456789abcdefABCDEF0123456789abcdefAB''"
    by (simp add: lit_def)
  have w: "types_to_openapi ?tys =
             SignEvmTypedDataFieldCriterionTypes
                        [(lit ''Transfer'',
                          [\<lparr>item_name = Some (lit ''to''), item_type = Some (lit ''address'')\<rparr>,
                           \<lparr>item_name = Some (lit ''amount''),
                            item_type = Some (lit ''uint256'')\<rparr>])]
                        (lit ''Transfer'')"
    by (simp add: types_value_inner_of_dict_def)
  show ?thesis
    using a k l x typed_data_field_scenario [of "lit ''accept''" ?tys ?hex]
    unfolding c w by blast
qed

lemma round_trip_Inr_iff:
  "round_trip rules = Inr out \<longleftrightarrow>
     (\<exists>ws. map_request_rules_to_openapi_format rules = Inr ws \<and>
           map_openapi_rules_to_response_format ws = Inr out)"
  by (auto simp: round_trip_def split: sum.splits)

text \<open>
  C1 (as amended): for every valid user-facing rule in which no EVM data condition has
  an empty \<open>params\<close> list and every typed-data field definition has exactly the keys
  \<open>name\<close> and \<open>type\<close>, transforming the rule to wire format and back yields the
  rule; the same holds for every list of such rules.
\<close>

theorem round_trip_valid_rule:
  "(valid_rule r \<and> kept_rule r \<longrightarrow> round_trip [r] = Inr [r])
   \<and> ((\<forall>x \<in> set rules. valid_rule x \<and> kept_rule x) \<longrightarrow> round_trip rules = Inr rules)"
  using rules_round_trip [of "[r]"] rules_round_trip [of rules]
  by (simp add: round_trip_Inr_iff)

lemma representative_rules_valid:
  "\<forall>x \<in> set representative_rules. valid_rule x \<and> kept_rule x"
proof -
  have d: "isdigit (lit ''1000'')" "isdigit (lit ''0'')"
    by (simp_all add: isdigit_def lit_def isdigit_char_def isdigit_ranges_def)
  have a: "match_evm_address (lit ''0x0123456789abcdefABCDEF0123456789abcdefAB'')"
    by (simp add: match_evm_address_def lit_def hex_char_def re_end_def)
  have s: "match_sol_address (lit ''HpabPRRCFbBKSuJr5PdkVvQc85FyxyTWkFM2obBRSvHT'')"
    by (simp add: match_sol_address_def lit_def base58_char_def re_end_def upt_rec)
  show ?thesis
    using d a s
    by (simp add: representative_rules_def valid_rule_def kept_rule_def
        response_rule_mapping_def new_rule_with_criteria_def
        new_SendEvmTransactionRule_def new_SignEvmTransactionRule_def new_SignEvmHashRule_def
        new_SignEvmMessageRule_def new_SignEvmTypedDataRule_def
        new_SignSolanaTransactionRule_def
        Action_def literal_def new_EthValueCriterion_def new_EvmAddressCriterion_def
        new_EvmNetworkCriterion_def new_EvmDataParameterCondition_def
        new_EvmDataParameterConditionList_def
        new_EvmTypedAddressCondition_def new_EvmTypedNumericalCondition_def
        new_SignEvmTypedDataVerifyingContractCriterion_def new_SolanaAddressCriterion_def
        validate_eth_value_def validate_value_def validate_addresses_length_def
        validate_addresses_format_def validate_address_format_def validate_operator_enum_def
        validate_operator_enum_list_def insert_commute)
qed

theorem round_trip_valid_rule_witness:
  "list_all (\<lambda>x. valid_rule x \<and> kept_rule x) representative_rules
   \<and> round_trip [hd representative_rules] = Inr [hd representative_rules]
   \<and> round_trip representative_rules = Inr representative_rules"
proof -
  have h: "hd representative_rules \<in> set representative_rules"
    by (simp add: representative_rules_def)
  show ?thesis
    using h representative_rules_valid
      round_trip_valid_rule [of "hd representative_rules" representative_rules]
    by (simp add: list_all_iff)
qed

text \<open>
  C1 as stated fails: a valid \<open>sendEvmTransaction\<close> rule whose EVM data condition has
  \<open>params = []\<close> comes back with \<open>params = None\<close>, and a valid
  \<open>signEvmTypedData\<close> rule with a field definition that has a third key does not come
  back equal.
\<close>

theorem round_trip_counterexample:
  "valid_rule
     \<lparr>action = lit ''accept'', operation = lit ''sendEvmTransaction'',
      criteria = Some [EvmDataCriterion (KnownAbiType (lit ''erc20''))
                         [EvmDataCondition (lit ''transfer'') (Some [])]]\<rparr>
   \<and> round_trip
       [\<lparr>action = lit ''accept'', operation = lit ''sendEvmTransaction'',
         criteria = Some [EvmDataCriterion (KnownAbiType (lit ''erc20''))
                            [EvmDataCondition (lit ''transfer'') (Some [])]]\<rparr>]
     = Inr [\<lparr>action = lit ''accept'', operation = lit ''sendEvmTransaction'',
             criteria = Some [EvmDataCriterion (KnownAbiType (lit ''erc20''))
                                [EvmDataCondition (lit ''transfer'') None]]\<rparr>]
   \<and> round_trip
       [\<lparr>action = lit ''accept'', operation = lit ''sendEvmTransaction'',
         criteria = Some [EvmDataCriterion (KnownAbiType (lit ''erc20''))
                            [EvmDataCondition (lit ''transfer'') (Some [])]]\<rparr>]
     \<noteq> Inr [\<lparr>action = lit ''accept'', operation = lit ''sendEvmTransaction'',
             criteria = Some [EvmDataCriterion (KnownAbiType (lit ''erc20''))
                                [EvmDataCondition (lit ''transfer'') (Some [])]]\<rparr>]
   \<and> valid_rule
     \<lparr>action = lit ''accept'', operation = lit ''signEvmTypedData'',
      criteria = Some [SignEvmTypedDataFieldCriterion
                         (SignEvmTypedDataTypes
                            [(lit ''Mail'',
                              [[lit ''name'' \<mapsto> lit ''to'', lit ''type'' \<mapsto> lit ''address'',
                                lit ''note'' \<mapsto> lit ''x'']])]
                            (lit ''Mail''))
                         []]\<rparr>
   \<and> round_trip
       [\<lparr>action = lit ''accept'', operation = lit ''signEvmTypedData'',
         criteria = Some [SignEvmTypedDataFieldCriterion
                            (SignEvmTypedDataTypes
                               [(lit ''Mail'',
                                 [[lit ''name'' \<mapsto> lit ''to'', lit ''type'' \<mapsto> lit ''address'',
                                   lit ''note'' \<mapsto> lit ''x'']])]
                               (lit ''Mail''))
                            []]\<rparr>]
     \<noteq> Inr [\<lparr>action = lit ''accept'', operation = lit ''signEvmTypedData'',
             criteria = Some [SignEvmTypedDataFieldCriterion
                                (SignEvmTypedDataTypes
                                   [(lit ''Mail'',
                                     [[lit ''name'' \<mapsto> lit ''to'',
                                       lit ''type'' \<mapsto> lit ''address'',
                                       lit ''note'' \<mapsto> lit ''x'']])]
                                   (lit ''Mail''))
                                []]\<rparr>]"
proof -
  have ne: "[lit ''name'' \<mapsto> lit ''to'', lit ''type'' \<mapsto> lit ''address'']
            \<noteq> [lit ''name'' \<mapsto> lit ''to'', lit ''type'' \<mapsto> lit ''address'',
               lit ''note'' \<mapsto> lit ''x'']"
  proof
    assume "[lit ''name'' \<mapsto> lit ''to'', lit ''type'' \<mapsto> lit ''address'']
            = [lit ''name'' \<mapsto> lit ''to'', lit ''type'' \<mapsto> lit ''address'',
               lit ''note'' \<mapsto> lit ''x'']"
    then have "[lit ''name'' \<mapsto> lit ''to'', lit ''type'' \<mapsto> lit ''address''] (lit ''note'')
            = [lit ''name'' \<mapsto> lit ''to'', lit ''type'' \<mapsto> lit ''address'',
               lit ''note'' \<mapsto> lit ''x''] (lit ''note'')"
      by (rule fun_cong)
    then show False by simp
  qed
  show ?thesis
    using ne
    by (simp add: valid_rule_def response_rule_mapping_def new_SendEvmTransactionRule_def
      new_SignEvmTypedDataRule_def
      new_rule_with_criteria_def Action_def literal_def
      round_trip_def map_request_rules_to_openapi_format_def request_rule_def
      openapi_criterion_mapping_def openapi_rule_mapping_def request_criterion_def
      map_openapi_rules_to_response_format_def response_rule_def
      response_criterion_mapping_def response_criterion_def
      new_EvmDataCriterion_def new_EvmDataCondition_def
      new_SignEvmTypedDataFieldCriterion_def new_SignEvmTypedDataTypes_def
      types_item_to_response_def name_type_dict_def types_value_inner_of_dict_def)
qed

end
